theory Spec2Isabelle
  imports Complex_Main "HOL-Library.AList"
begin

section \<open>JavaScript values used by the voice agent\<close>

text \<open>
  Strings are lists of code units. A HOL character is one byte, so the model covers the
  strings whose code units are below 256 (ASCII and Latin-1); every keyword, phrase and
  markup template of the program is ASCII.
\<close>

definition charCode :: "char \<Rightarrow> nat" where
  "charCode c = of_char c"

text \<open>The characters matched by \<^verbatim>\<open>\s\<close> and removed by \<^verbatim>\<open>trim()\<close>:
  tab, line feed, vertical tab, form feed, carriage return, space, no-break space.\<close>

definition isWhiteSpace :: "char \<Rightarrow> bool" where
  "isWhiteSpace c = (charCode c = 9 \<or> charCode c = 10 \<or> charCode c = 11 \<or> charCode c = 12
     \<or> charCode c = 13 \<or> charCode c = 32 \<or> charCode c = 160)"

text \<open>The class \<^verbatim>\<open>[a-z]\<close> under the \<^verbatim>\<open>i\<close> flag: the ASCII letters of either case.\<close>

definition isAsciiLetter :: "char \<Rightarrow> bool" where
  "isAsciiLetter c = ((65 \<le> charCode c \<and> charCode c \<le> 90) \<or> (97 \<le> charCode c \<and> charCode c \<le> 122))"

text \<open>Case folding of one code unit as the \<^verbatim>\<open>i\<close> flag does it for an ASCII pattern
  character: only \<^verbatim>\<open>A-Z\<close> fold onto \<^verbatim>\<open>a-z\<close>.\<close>

definition asciiLower :: "char \<Rightarrow> char" where
  "asciiLower c = (if 65 \<le> charCode c \<and> charCode c \<le> 90 then char_of (charCode c + 32) else c)"

text \<open>\<^verbatim>\<open>String.prototype.toLowerCase\<close> on code units below 256: the ASCII capitals and
  the Latin-1 capitals (all of 0xC0-0xDE but the multiplication sign 0xD7) move up by 32.\<close>

definition toLowerChar :: "char \<Rightarrow> char" where
  "toLowerChar c =
     (if (65 \<le> charCode c \<and> charCode c \<le> 90)
         \<or> (192 \<le> charCode c \<and> charCode c \<le> 222 \<and> charCode c \<noteq> 215)
      then char_of (charCode c + 32) else c)"

definition toLowerCase :: "string \<Rightarrow> string" where
  "toLowerCase s = map toLowerChar s"

definition trim :: "string \<Rightarrow> string" where
  "trim s = rev (dropWhile isWhiteSpace (rev (dropWhile isWhiteSpace s)))"

fun startsWith :: "string \<Rightarrow> string \<Rightarrow> bool" where
  "startsWith s [] = True"
| "startsWith [] (k # ks) = False"
| "startsWith (c # cs) (k # ks) = (c = k \<and> startsWith cs ks)"

text \<open>\<^verbatim>\<open>s.includes(k)\<close>: \<open>k\<close> occurs in \<open>s\<close> as a contiguous substring.\<close>

fun includesStr :: "string \<Rightarrow> string \<Rightarrow> bool" where
  "includesStr [] k = (k = [])"
| "includesStr (c # cs) k = (startsWith (c # cs) k \<or> includesStr cs k)"

text \<open>\<^verbatim>\<open>Array.prototype.some\<close>.\<close>

primrec some :: "('a \<Rightarrow> bool) \<Rightarrow> 'a list \<Rightarrow> bool" where
  "some p [] = False"
| "some p (x # xs) = (p x \<or> some p xs)"

text \<open>Truthiness of a value that is either \<^verbatim>\<open>null\<close>/\<^verbatim>\<open>undefined\<close> or a string:
  the empty string is falsy.\<close>

fun truthy :: "string option \<Rightarrow> bool" where
  "truthy None = False"
| "truthy (Some s) = (s \<noteq> [])"

section \<open>Lead analysis (voice-stream, business intelligence)\<close>

record contactInfo =
  name :: "string option"

record analysis =
  hasEmergency :: bool
  serviceType :: "string option"
  urgencyLevel :: string
  contactInfo :: contactInfo

text \<open>The session's \<^verbatim>\<open>leadInfo\<close> has the fields of an analysis and the score.\<close>

record leadInfo = analysis +
  qualificationScore :: int

definition emergencyKeywords :: "string list" where
  "emergencyKeywords =
     [''emergency'', ''urgent'', ''no heat'', ''no air'', ''gas smell'', ''electrical'', ''flooding'']"

text \<open>The object literal \<^verbatim>\<open>serviceTypes\<close>; \<^verbatim>\<open>Object.entries\<close> lists its keys in
  insertion order.\<close>

definition serviceTypes :: "(string \<times> string list) list" where
  "serviceTypes =
     [(''heating'', [''heat'', ''furnace'', ''boiler'', ''warm'']),
      (''cooling'', [''cool'', ''air conditioning'', ''ac'', ''cold'']),
      (''maintenance'', [''service'', ''tune up'', ''check'']),
      (''installation'', [''install'', ''new'', ''replace'']),
      (''repair'', [''repair'', ''fix'', ''broken''])]"

text \<open>The \<^verbatim>\<open>for ... of\<close> loop of \<^verbatim>\<open>analyzeMessage\<close>: the first entry with a keyword
  in the message sets the type and breaks.\<close>

fun firstServiceType :: "(string \<times> string list) list \<Rightarrow> string \<Rightarrow> string option" where
  "firstServiceType [] lowerMessage = None"
| "firstServiceType ((type, keywords) # rest) lowerMessage =
     (if some (\<lambda>keyword. includesStr lowerMessage keyword) keywords then Some type
      else firstServiceType rest lowerMessage)"

subsection \<open>The name pattern\<close>

text \<open>
  \<^verbatim>\<open>/(?:my name is|i'm|i am)\s+([a-z]+(?:\s+[a-z]+)?)/i\<close>

  \<open>matchLiteral p s\<close> matches the lower-case ASCII literal \<open>p\<close> at the start of \<open>s\<close>
  ignoring case, and returns what follows it.
\<close>

fun matchLiteral :: "string \<Rightarrow> string \<Rightarrow> string option" where
  "matchLiteral [] s = Some s"
| "matchLiteral (p # ps) [] = None"
| "matchLiteral (p # ps) (c # cs) = (if asciiLower c = p then matchLiteral ps cs else None)"

text \<open>
  \<^verbatim>\<open>\s+([a-z]+(?:\s+[a-z]+)?)\<close> at the start of \<open>s\<close>, returning group 1. The
  quantifiers are greedy. Giving back white space cannot make \<^verbatim>\<open>[a-z]+\<close> match, the
  optional group is taken whenever it matches, and nothing follows it, so the first attempt
  of the backtracking matcher is the answer.
\<close>

definition captureName :: "string \<Rightarrow> string option" where
  "captureName s =
     (let r1 = dropWhile isWhiteSpace s;
          w1 = takeWhile isAsciiLetter r1;
          r2 = dropWhile isAsciiLetter r1;
          ws2 = takeWhile isWhiteSpace r2;
          w2 = takeWhile isAsciiLetter (dropWhile isWhiteSpace r2)
      in if takeWhile isWhiteSpace s = [] \<or> w1 = [] then None
         else if ws2 \<noteq> [] \<and> w2 \<noteq> [] then Some (w1 @ ws2 @ w2)
         else Some w1)"

text \<open>The alternatives are tried in the order written, each with the rest of the pattern.\<close>

fun firstAlternative :: "string list \<Rightarrow> string \<Rightarrow> string option" where
  "firstAlternative [] s = None"
| "firstAlternative (p # ps) s =
     (case matchLiteral p s of
        None \<Rightarrow> firstAlternative ps s
      | Some rest \<Rightarrow>
          (case captureName rest of
             None \<Rightarrow> firstAlternative ps s
           | Some n \<Rightarrow> Some n))"

definition matchAt :: "string \<Rightarrow> string option" where
  "matchAt s = firstAlternative [''my name is'', ''i'm'', ''i am''] s"

text \<open>\<^verbatim>\<open>message.match(re)\<close> without the global flag: the leftmost position at which the
  pattern matches; the result is \<^verbatim>\<open>nameMatch[1]\<close>, or \<open>None\<close> for \<^verbatim>\<open>null\<close>.\<close>

fun nameMatch :: "string \<Rightarrow> string option" where
  "nameMatch [] = matchAt []"
| "nameMatch (c # cs) = (case matchAt (c # cs) of Some n \<Rightarrow> Some n | None \<Rightarrow> nameMatch cs)"

subsection \<open>analyzeMessage and calculateLeadScore\<close>

definition analyzeMessage :: "string \<Rightarrow> analysis" where
  "analyzeMessage message =
     (let lowerMessage = toLowerCase message;
          analysis0 = \<lparr>hasEmergency = False, serviceType = None, urgencyLevel = ''normal'',
                       contactInfo = \<lparr>name = None\<rparr>\<rparr>;
          analysis1 = (if some (\<lambda>keyword. includesStr lowerMessage keyword) emergencyKeywords
                       then analysis0\<lparr>hasEmergency := True, urgencyLevel := ''emergency''\<rparr>
                       else analysis0);
          analysis2 = (case firstServiceType serviceTypes lowerMessage of
                         Some type \<Rightarrow> analysis1\<lparr>serviceType := Some type\<rparr>
                       | None \<Rightarrow> analysis1)
      in case nameMatch message of
           Some n \<Rightarrow> analysis2\<lparr>contactInfo := (contactInfo analysis2)\<lparr>name := Some (trim n)\<rparr>\<rparr>
         | None \<Rightarrow> analysis2)"

definition calculateLeadScore :: "leadInfo \<Rightarrow> int" where
  "calculateLeadScore leadInfo =
     (let score = 10;
          score = (if hasEmergency leadInfo then score + 50 else score);
          score = (if serviceType leadInfo = Some ''installation'' then score + 40
                   else if truthy (serviceType leadInfo) then score + 20 else score);
          score = (if truthy (name (contactInfo leadInfo)) then score + 15 else score);
          score = (if urgencyLevel leadInfo = ''emergency'' then score + 30 else score)
      in min score 100)"

section \<open>The voice-stream function: requests, responses and the outside world\<close>

text \<open>
  A JavaScript number is a double: not-a-number, an infinity, or a finite value, which is a
  rational. \<open>numLess\<close> is the operator \<^verbatim>\<open><\<close> on numbers.
\<close>

datatype number = NaN | NegInfinity | Finite rat | PosInfinity

fun numLess :: "number \<Rightarrow> number \<Rightarrow> bool" where
  "numLess (Finite a) (Finite b) = (a < b)"
| "numLess (Finite a) PosInfinity = True"
| "numLess NegInfinity (Finite b) = True"
| "numLess NegInfinity PosInfinity = True"
| "numLess x y = False"

text \<open>The literal \<^verbatim>\<open>0.3\<close> denotes the double nearest to 3/10, which is
  5404319552844595 / 2^54; \<^verbatim>\<open>parseFloat("0.3")\<close> is the same double.\<close>

definition literal_0_3 :: number where
  "literal_0_3 = Finite (5404319552844595 / 18014398509481984)"

text \<open>A thrown value, with its message.\<close>

datatype error = TypeError string | Error string

text \<open>The result of an awaited call to a service outside the program: it throws an error
  with a message, or it returns.\<close>

datatype 'a outcome = Throws string | Returns 'a

text \<open>
  A form field after \<^verbatim>\<open>querystring.parse\<close> (or of a body that is already an object):
  absent, a string, or a truthy value that is not a string (the array that a repeated key
  gives, a number or an object of a JSON body), which has no \<^verbatim>\<open>trim\<close> method.
\<close>

datatype field = Undefined | Str string | NonString

fun isTruthy :: "field \<Rightarrow> bool" where
  "isTruthy Undefined = False"
| "isTruthy (Str s) = (s \<noteq> [])"
| "isTruthy NonString = True"

text \<open>\<^verbatim>\<open>speechResult.trim().length\<close>.\<close>

fun trimLength :: "field \<Rightarrow> error + nat" where
  "trimLength (Str s) = Inr (length (trim s))"
| "trimLength Undefined = Inl (TypeError ''Cannot read properties of undefined (reading 'trim')'')"
| "trimLength NonString = Inl (TypeError ''speechResult.trim is not a function'')"

fun stringOf :: "field \<Rightarrow> string" where
  "stringOf (Str s) = s"
| "stringOf Undefined = []"
| "stringOf NonString = []"

text \<open>
  The form data of a webhook. \<open>CallSid\<close> and \<open>From\<close> are sent with every webhook
  and are strings here; \<open>Confidence\<close> is the value of
  \<^verbatim>\<open>parseFloat(formData.Confidence || 0)\<close>.
\<close>

record formData =
  SpeechResult :: field
  CallSid :: string
  From :: string
  Confidence :: number

text \<open>\<open>req_body\<close> is \<open>None\<close> when \<^verbatim>\<open>req.body\<close> is falsy (absent or empty).\<close>

record request =
  req_method :: string
  req_body :: "formData option"

text \<open>\<^verbatim>\<open>context.res\<close>: the status if one is set, the Content-Type header if one is
  set, and the body.\<close>

record response =
  res_status :: "nat option"
  res_contentType :: "string option"
  res_body :: string

record message =
  role :: string
  content :: string

record session =
  messages :: "message list"
  leadInfo :: leadInfo
  callSid :: string
  phoneNumber :: string
  isFromDb :: bool

text \<open>A document of the transcripts container. Its \<^verbatim>\<open>id\<close> (call id, clock and a
  random suffix) only names the document and is left out.\<close>

record messageDoc =
  msg_callSid :: string
  msg_phoneNumber :: string
  msg_role :: string
  msg_content :: string
  msg_timestamp :: string
  msg_ttl :: nat

record leadDoc =
  doc_id :: string
  doc_phoneNumber :: string
  doc_leadInfo :: leadInfo
  lastContact :: string
  lastCallSid :: string
  score :: int
  ttl :: nat

text \<open>
  The module-level state and the two containers. \<open>conversationSessions\<close> is the
  \<^verbatim>\<open>Map\<close> of fallback sessions, in insertion order; the transcripts are kept in the
  order of their timestamps; the leads container holds one document per id.
\<close>

record world =
  isDbConnected :: bool
  conversationSessions :: "(string \<times> session) list"
  transcriptsContainer :: "messageDoc list"
  leadsContainer :: "(string \<times> leadDoc) list"

definition initialWorld :: world where
  "initialWorld = \<lparr>isDbConnected = False, conversationSessions = [],
                    transcriptsContainer = [], leadsContainer = []\<rparr>"

text \<open>
  What the outside world does during one invocation: the environment variable, whether the
  OpenAI client was built when the module was loaded, the clock, and for each awaited
  service call whether it returns. The containers' contents are part of \<open>world\<close>.
\<close>

record env =
  COSMOS_CONN :: "string option"
  openaiReady :: bool
  now :: string
  connectDb :: "unit outcome"
  queryCallOk :: bool
  queryHistoryOk :: bool
  readLeadOk :: bool
  createUserOk :: bool
  createAssistantOk :: bool
  upsertOk :: bool
  completion :: "string outcome"

subsection \<open>initializeCosmosDB\<close>

text \<open>The 5 second timer that the handler races against this call only delays the
  handler; its result is logged and not used.\<close>

definition initializeCosmosDB :: "env \<Rightarrow> world \<Rightarrow> world \<times> bool" where
  "initializeCosmosDB e w =
     (if isDbConnected w then (w, True)
      else if \<not> truthy (COSMOS_CONN e) then (w, False)
      else if \<not> includesStr (the (COSMOS_CONN e)) ''AccountEndpoint=''
              \<or> \<not> includesStr (the (COSMOS_CONN e)) ''AccountKey='' then (w, False)
      else (case connectDb e of
              Returns u \<Rightarrow> (w\<lparr>isDbConnected := True\<rparr>, True)
            | Throws m \<Rightarrow> (w\<lparr>isDbConnected := False\<rparr>, False)))"

subsection \<open>getOrCreateSession\<close>

definition systemPromptMemory :: string where
  \<open>systemPromptMemory =
     ''You are an HVAC service representative for Blue Caller HVAC. Be conversational and helpful.\<newline>'' @
     ''\<newline>'' @
     ''GOALS:\<newline>'' @
     ''- Help with heating/cooling questions\<newline>'' @
     ''- Get contact info naturally \<newline>'' @
     ''- Identify service needs\<newline>'' @
     ''- Handle emergencies urgently\<newline>'' @
     ''\<newline>'' @
     ''RESPONSE STYLE:\<newline>'' @
     ''- Keep responses SHORT (1-2 sentences max)\<newline>'' @
     ''- Be natural and friendly\<newline>'' @
     ''- Ask ONE follow-up question max''\<close>

text \<open>The number of previous calls is at most 3 (\<^verbatim>\<open>SELECT TOP 3\<close>).\<close>

definition showCount :: "nat \<Rightarrow> string" where
  "showCount n = (if n = 0 then ''0'' else if n = 1 then ''1'' else if n = 2 then ''2'' else ''3'')"

definition systemPromptDb :: "nat \<Rightarrow> string" where
  \<open>systemPromptDb previousCalls =
     systemPromptMemory @ ''\<newline>'' @
     ''\<newline>'' @
     ''EMERGENCIES: no heat, no AC, gas smell - offer immediate help'' @
     (if previousCalls > 0
      then ''\<newline>\<newline>Returning customer ('' @ showCount previousCalls @ '' previous calls)''
      else [])\<close>

definition defaultLeadInfo :: leadInfo where
  "defaultLeadInfo = \<lparr>hasEmergency = False, serviceType = None, urgencyLevel = ''normal'',
                       contactInfo = \<lparr>name = None\<rparr>, qualificationScore = 0\<rparr>"

text \<open>
  The database branch of \<^verbatim>\<open>getOrCreateSession\<close>; \<open>None\<close> when one of the two
  queries throws, which the function logs before it falls back to memory. A failed read of
  the lead is swallowed on its own. The stored \<^verbatim>\<open>leadInfo\<close> has every field, so
  spreading it over the defaults gives the stored one.
\<close>

definition sessionFromDb :: "env \<Rightarrow> world \<Rightarrow> string \<Rightarrow> string \<Rightarrow> session option" where
  "sessionFromDb e w callSid' phoneNumber' =
     (if \<not> queryCallOk e \<or> \<not> queryHistoryOk e then None
      else
        let existingMessages = filter (\<lambda>d. msg_callSid d = callSid') (transcriptsContainer w);
            previousCalls =
              take 3 (rev (filter (\<lambda>d. msg_phoneNumber d = phoneNumber') (transcriptsContainer w)));
            messages' =
              \<lparr>role = ''system'', content = systemPromptDb (length previousCalls)\<rparr>
              # map (\<lambda>d. \<lparr>role = msg_role d, content = msg_content d\<rparr>)
                    (filter (\<lambda>d. msg_role d \<noteq> ''system'') existingMessages);
            leadInfo' =
              (if readLeadOk e
               then (case map_of (leadsContainer w) phoneNumber' of
                       Some existingLead \<Rightarrow> doc_leadInfo existingLead
                     | None \<Rightarrow> defaultLeadInfo)
               else defaultLeadInfo)
        in Some \<lparr>messages = messages', leadInfo = leadInfo', callSid = callSid',
                  phoneNumber = phoneNumber', isFromDb = True\<rparr>)"

definition newMemorySession :: "string \<Rightarrow> string \<Rightarrow> session" where
  "newMemorySession callSid' phoneNumber' =
     \<lparr>messages = [\<lparr>role = ''system'', content = systemPromptMemory\<rparr>],
      leadInfo = defaultLeadInfo, callSid = callSid', phoneNumber = phoneNumber',
      isFromDb = False\<rparr>"

definition getOrCreateSession :: "env \<Rightarrow> world \<Rightarrow> string \<Rightarrow> string \<Rightarrow> world \<times> session" where
  "getOrCreateSession e w callSid' phoneNumber' =
     (case (if isDbConnected w then sessionFromDb e w callSid' phoneNumber' else None) of
        Some s \<Rightarrow> (w, s)
      | None \<Rightarrow>
          (case map_of (conversationSessions w) callSid' of
             Some s \<Rightarrow> (w, s)
           | None \<Rightarrow>
               (w\<lparr>conversationSessions :=
                     AList.update callSid' (newMemorySession callSid' phoneNumber')
                       (conversationSessions w)\<rparr>,
                newMemorySession callSid' phoneNumber')))"

subsection \<open>saveMessage, updateLead, getAIResponse\<close>

text \<open>Neither \<^verbatim>\<open>saveMessage\<close> nor \<^verbatim>\<open>updateLead\<close> is awaited by the handler; their
  writes are applied here in the order in which the handler starts them.\<close>

definition saveMessage ::
  "bool \<Rightarrow> env \<Rightarrow> world \<Rightarrow> string \<Rightarrow> string \<Rightarrow> string \<Rightarrow> string \<Rightarrow> world \<times> bool" where
  "saveMessage createOk e w callSid' phoneNumber' role' content' =
     (if \<not> isDbConnected w then (w, False)
      else if createOk
      then (w\<lparr>transcriptsContainer := transcriptsContainer w @
                 [\<lparr>msg_callSid = callSid', msg_phoneNumber = phoneNumber', msg_role = role',
                   msg_content = content', msg_timestamp = now e,
                   msg_ttl = 60 * 60 * 24 * 365\<rparr>]\<rparr>, True)
      else (w, False))"

definition updateLead :: "env \<Rightarrow> world \<Rightarrow> string \<Rightarrow> leadInfo \<Rightarrow> string \<Rightarrow> world \<times> bool" where
  "updateLead e w phoneNumber' leadInfo' callSid' =
     (if \<not> isDbConnected w then (w, False)
      else
        let leadDoc = \<lparr>doc_id = phoneNumber', doc_phoneNumber = phoneNumber',
                        doc_leadInfo = leadInfo', lastContact = now e, lastCallSid = callSid',
                        score = calculateLeadScore leadInfo', ttl = 60 * 60 * 24 * 365 * 2\<rparr>
        in if upsertOk e
           then (w\<lparr>leadsContainer := AList.update phoneNumber' leadDoc (leadsContainer w)\<rparr>, True)
           else (w, False))"

definition getAIResponse :: "env \<Rightarrow> message list \<Rightarrow> string" where
  "getAIResponse e messages' =
     (case (if \<not> openaiReady e then Throws ''OpenAI client not initialized'' else completion e) of
        Returns content' \<Rightarrow> content'
      | Throws m \<Rightarrow>
          if includesStr m ''not initialized''
          then ''I'm having trouble with my AI service. Let me connect you with someone who can help.''
          else if includesStr m ''deployment''
          then ''I'm having configuration issues. Please call back in a few minutes.''
          else ''I'm having trouble right now. Could you try again?'')"


subsection \<open>The markup documents of voice-stream\<close>

definition clarificationTwiml :: string where
  \<open>clarificationTwiml =
     ''<Response>\<newline>'' @
     ''            <Say voice="en-US-JennyNeural">Sorry, didn't catch that. What can I help you with?</Say>\<newline>'' @
     ''            <Gather input="speech" timeout="30" speechTimeout="auto" action="https://func-blucallerai-dkavgbhvdkesgmer.westus-01.azurewebsites.net/api/voice-stream" method="POST">\<newline>'' @
     ''              <Say voice="en-US-JennyNeural">I'm listening.</Say>\<newline>'' @
     ''            </Gather>\<newline>'' @
     ''            <Redirect>https://func-blucallerai-dkavgbhvdkesgmer.westus-01.azurewebsites.net/api/voice-twiml</Redirect>\<newline>'' @
     ''          </Response>''\<close>

definition responseTwiml :: "string \<Rightarrow> string \<Rightarrow> string" where
  \<open>responseTwiml aiResponse followUpPrompt =
     ''<Response>\<newline>'' @
     ''            <Say voice="en-US-JennyNeural">'' @
     aiResponse @
     ''</Say>\<newline>'' @
     ''            <Gather input="speech" timeout="30" speechTimeout="auto" action="https://func-blucallerai-dkavgbhvdkesgmer.westus-01.azurewebsites.net/api/voice-stream" method="POST">\<newline>'' @
     ''              <Say voice="en-US-JennyNeural">'' @
     followUpPrompt @
     ''</Say>\<newline>'' @
     ''            </Gather>\<newline>'' @
     ''            <Redirect>https://func-blucallerai-dkavgbhvdkesgmer.westus-01.azurewebsites.net/api/voice-twiml</Redirect>\<newline>'' @
     ''          </Response>''\<close>

definition noSpeechTwiml :: string where
  \<open>noSpeechTwiml =
     ''<Response>\<newline>'' @
     ''            <Say voice="en-US-JennyNeural">Didn't hear you. How can I help?</Say>\<newline>'' @
     ''            <Gather input="speech" timeout="30" speechTimeout="auto" action="https://func-blucallerai-dkavgbhvdkesgmer.westus-01.azurewebsites.net/api/voice-stream" method="POST">\<newline>'' @
     ''              <Say voice="en-US-JennyNeural">I'm listening.</Say>\<newline>'' @
     ''            </Gather>\<newline>'' @
     ''            <Redirect>https://func-blucallerai-dkavgbhvdkesgmer.westus-01.azurewebsites.net/api/voice-twiml</Redirect>\<newline>'' @
     ''          </Response>''\<close>

definition errorTwiml :: string where
  \<open>errorTwiml =
     ''<Response>\<newline>'' @
     ''        <Say voice="en-US-JennyNeural">Sorry, I had an error. Please try calling again.</Say>\<newline>'' @
     ''        <Hangup />\<newline>'' @
     ''      </Response>''\<close>

definition clarificationResponse :: response where
  "clarificationResponse =
     \<lparr>res_status = None, res_contentType = Some ''text/xml'', res_body = clarificationTwiml\<rparr>"

definition turnResponse :: "string \<Rightarrow> string \<Rightarrow> response" where
  "turnResponse aiResponse followUpPrompt =
     \<lparr>res_status = None, res_contentType = Some ''text/xml'',
      res_body = responseTwiml aiResponse followUpPrompt\<rparr>"

definition noSpeechResponse :: response where
  "noSpeechResponse =
     \<lparr>res_status = None, res_contentType = Some ''text/xml'', res_body = noSpeechTwiml\<rparr>"

definition readyResponse :: response where
  "readyResponse =
     \<lparr>res_status = Some 200, res_contentType = None, res_body = ''Voice stream endpoint ready''\<rparr>"

definition errorResponse :: response where
  "errorResponse =
     \<lparr>res_status = Some 200, res_contentType = Some ''text/xml'', res_body = errorTwiml\<rparr>"

subsection \<open>The handler of voice-stream\<close>

text \<open>The four assignments under "Update lead info". An analysis always has a non-empty
  \<^verbatim>\<open>urgencyLevel\<close>, so the third one always fires.\<close>

definition mergeLeadInfo :: "analysis \<Rightarrow> leadInfo \<Rightarrow> leadInfo" where
  "mergeLeadInfo a li =
     (let l1 = (if hasEmergency a then li\<lparr>hasEmergency := True\<rparr> else li);
          l2 = (if truthy (serviceType a) then l1\<lparr>serviceType := serviceType a\<rparr> else l1);
          l3 = (if urgencyLevel a \<noteq> [] then l2\<lparr>urgencyLevel := urgencyLevel a\<rparr> else l2)
      in if truthy (name (contactInfo a))
         then l3\<lparr>contactInfo := (contactInfo l3)\<lparr>name := name (contactInfo a)\<rparr>\<rparr>
         else l3)"

text \<open>\<^verbatim>\<open>session.leadInfo.qualificationScore = calculateLeadScore(session.leadInfo)\<close>.\<close>

definition rescore :: "leadInfo \<Rightarrow> leadInfo" where
  "rescore li = li\<lparr>qualificationScore := calculateLeadScore li\<rparr>"

definition followUp :: "leadInfo \<Rightarrow> string" where
  "followUp li =
     (if hasEmergency li then ''Can I get your address to send someone out?''
      else if truthy (serviceType li) \<and> \<not> truthy (name (contactInfo li))
      then ''What's your name for our records?''
      else ''Anything else I can help with?'')"

text \<open>
  The branch for a turn with speech. A fallback session is the object stored in the
  \<^verbatim>\<open>Map\<close>, so what the handler writes to it is written to the entry of the call; a
  session built from the database is a fresh object that is dropped at the end.
\<close>

definition processTurn :: "env \<Rightarrow> world \<Rightarrow> string \<Rightarrow> string \<Rightarrow> string \<Rightarrow> world \<times> response" where
  "processTurn e w speechResult callSid' phoneNumber' =
     (let (w1, session0) = getOrCreateSession e w callSid' phoneNumber';
          session1 = session0\<lparr>messages :=
                       messages session0 @ [\<lparr>role = ''user'', content = speechResult\<rparr>]\<rparr>;
          w2 = fst (saveMessage (createUserOk e) e w1 callSid' phoneNumber' ''user'' speechResult);
          analysis' = analyzeMessage speechResult;
          session2 = session1\<lparr>leadInfo := rescore (mergeLeadInfo analysis' (leadInfo session1))\<rparr>;
          aiResponse = getAIResponse e (messages session2);
          session3 = session2\<lparr>messages :=
                       messages session2 @ [\<lparr>role = ''assistant'', content = aiResponse\<rparr>]\<rparr>;
          w3 = fst (saveMessage (createAssistantOk e) e w2 callSid' phoneNumber' ''assistant'' aiResponse);
          w4 = fst (updateLead e w3 phoneNumber' (leadInfo session3) callSid');
          w5 = (if isFromDb session3 then w4
                else w4\<lparr>conversationSessions :=
                          AList.update callSid' session3 (conversationSessions w4)\<rparr>)
      in (w5, turnResponse aiResponse (followUp (leadInfo session3))))"

text \<open>From \<^verbatim>\<open>if (speechResult && speechResult.trim().length > 0)\<close> on.\<close>

definition afterFilter :: "env \<Rightarrow> world \<Rightarrow> formData \<Rightarrow> error + world \<times> response" where
  "afterFilter e w formData' =
     (if isTruthy (SpeechResult formData')
      then (case trimLength (SpeechResult formData') of
              Inl err \<Rightarrow> Inl err
            | Inr n \<Rightarrow>
                if n > 0
                then Inr (processTurn e w (stringOf (SpeechResult formData'))
                            (CallSid formData') (From formData'))
                else Inr (w, noSpeechResponse))
      else Inr (w, noSpeechResponse))"

text \<open>The \<^verbatim>\<open>try\<close> block of the handler; \<open>Inl\<close> is a thrown error. The only
  expression of the block that can throw is \<^verbatim>\<open>speechResult.trim()\<close>, which is evaluated
  before anything is written.\<close>

definition handleRequest :: "env \<Rightarrow> world \<Rightarrow> request \<Rightarrow> error + world \<times> response" where
  "handleRequest e w req =
     (case req_body req of
        None \<Rightarrow> Inr (w, readyResponse)
      | Some formData' \<Rightarrow>
          if req_method req = ''POST''
          then (if numLess (Confidence formData') literal_0_3 \<and> isTruthy (SpeechResult formData')
                then (case trimLength (SpeechResult formData') of
                        Inl err \<Rightarrow> Inl err
                      | Inr n \<Rightarrow>
                          if n < 3 then Inr (w, clarificationResponse)
                          else afterFilter e w formData')
                else afterFilter e w formData')
          else Inr (w, readyResponse))"

text \<open>The exported function: the database is initialised, then the block runs, and the
  \<^verbatim>\<open>catch\<close> clause sets the error markup. A result \<open>Inl\<close> would be an error that
  leaves the function.\<close>

definition voiceStream :: "env \<Rightarrow> world \<Rightarrow> request \<Rightarrow> error + world \<times> response" where
  "voiceStream e w req =
     (let w1 = fst (initializeCosmosDB e w)
      in case handleRequest e w1 req of
           Inr result \<Rightarrow> Inr result
         | Inl err \<Rightarrow> Inr (w1, errorResponse))"

fun responseOf :: "error + 'w \<times> response \<Rightarrow> response option" where
  "responseOf (Inr (w, r)) = Some r"
| "responseOf (Inl err) = None"

text \<open>A run of webhook deliveries, one after the other.\<close>

fun run :: "world \<Rightarrow> (env \<times> request) list \<Rightarrow> world" where
  "run w [] = w"
| "run w ((e, req) # rest) =
     (case voiceStream e w req of Inr (w', r) \<Rightarrow> run w' rest | Inl err \<Rightarrow> w)"

text \<open>The lead information of a call after the turns with the given utterances.\<close>

fun mergeTurns :: "leadInfo \<Rightarrow> string list \<Rightarrow> leadInfo" where
  "mergeTurns li [] = li"
| "mergeTurns li (speechResult # rest) =
     mergeTurns (rescore (mergeLeadInfo (analyzeMessage speechResult) li)) rest"




section \<open>The first voice-stream function (Web PubSub version)\<close>












section \<open>VoiceManager and the voice-twiml function\<close>















section \<open>Business resolution (FirebaseService, BusinessService)\<close>

record profile =
  companyName :: "string option"
  industry :: "string option"
  businessType :: "string option"

record hours =
  opens :: string
  closes :: string

record schedule =
  weekdayHours :: "hours option"
  weekendHours :: "hours option"

text \<open>The data of a business document; \<open>servicesList\<close> is
  \<^verbatim>\<open>data.services?.list\<close>.\<close>

record businessData =
  profile :: "profile option"
  servicesList :: "string list option"
  schedule :: "schedule option"

text \<open>What \<^verbatim>\<open>findBusinessByPhone\<close> returns; a flag that the object does not carry is
  \<open>False\<close>.\<close>

record business =
  businessId :: string
  data :: businessData
  found :: bool
  isSharedNumber :: bool
  isDefault :: bool

record humanForwarding =
  enabled :: bool
  forwardingNumber :: string
  transferThreshold :: nat

record aiConfig =
  voiceStyle :: string
  gender :: string
  responseTone :: string
  greetingMessage :: string
  businessSlogan :: string
  bufferTime :: nat
  serviceRadius :: nat
  humanForwarding :: humanForwarding

text \<open>
  The directory service as the program sees it: the two queries on the businesses
  collection (limit 1) for a dialed number, and the reads of a business document and of an
  assistant document by id. Each call throws or returns.
\<close>

record firestore =
  queryByNumber :: "string \<Rightarrow> (string \<times> businessData) list outcome"
  queryByMockNumber :: "string \<Rightarrow> (string \<times> businessData) list outcome"
  businessDoc :: "string \<Rightarrow> businessData option outcome"
  aiAssistantDoc :: "string \<Rightarrow> aiConfig option outcome"

text \<open>The environment of the constructor of FirebaseService.\<close>

record firebaseEnv =
  FB_PROJECT_ID :: "string option"
  FB_CLIENT_EMAIL :: "string option"
  FB_PRIVATE_KEY :: "string option"
  adminApps :: nat
  initializeApp :: "unit outcome"
  adminFirestore :: "unit outcome"

text \<open>The value of \<^verbatim>\<open>this.initialized\<close> after \<^verbatim>\<open>initializeFirebase\<close>. Building the
  credential from a malformed key throws inside \<^verbatim>\<open>initializeApp\<close>.\<close>

definition initializeFirebase :: "firebaseEnv \<Rightarrow> bool" where
  "initializeFirebase fe =
     (if adminApps fe = 0
      then (if \<not> truthy (FB_PROJECT_ID fe) \<or> \<not> truthy (FB_CLIENT_EMAIL fe)
               \<or> \<not> truthy (FB_PRIVATE_KEY fe) then False
            else (case initializeApp fe of
                    Throws m \<Rightarrow> False
                  | Returns u \<Rightarrow> (case adminFirestore fe of Throws m \<Rightarrow> False | Returns u' \<Rightarrow> True)))
      else (case adminFirestore fe of Throws m \<Rightarrow> False | Returns u' \<Rightarrow> True))"

definition getDefaultBusinessConfig :: business where
  "getDefaultBusinessConfig =
     \<lparr>businessId = ''default'',
      data = \<lparr>profile = Some \<lparr>companyName = Some ''Blue Caller HVAC'', industry = Some ''hvac'',
                              businessType = Some ''hvac''\<rparr>,
              servicesList = Some [''heating repair'', ''cooling repair'', ''maintenance'', ''installation''],
              schedule = Some \<lparr>weekdayHours = Some \<lparr>opens = ''08:00'', closes = ''17:00''\<rparr>,
                               weekendHours = Some \<lparr>opens = ''09:00'', closes = ''15:00''\<rparr>\<rparr>\<rparr>,
      found = False, isSharedNumber = False, isDefault = True\<rparr>"

definition getDefaultAIConfig :: aiConfig where
  "getDefaultAIConfig =
     \<lparr>voiceStyle = ''friendly'', gender = ''female'', responseTone = ''professional'',
      greetingMessage = ''Thank you for calling Blue Caller HVAC. How may I assist you today?'',
      businessSlogan = [], bufferTime = 15, serviceRadius = 25,
      humanForwarding = \<lparr>enabled = False, forwardingNumber = [], transferThreshold = 3\<rparr>\<rparr>"

text \<open>\<open>Throws\<close> as a result would be an error that leaves the function.\<close>

definition findBusinessByPhone :: "bool \<Rightarrow> firestore \<Rightarrow> string \<Rightarrow> business outcome" where
  "findBusinessByPhone initialized fs phoneNumber' =
     (if \<not> initialized then Returns getDefaultBusinessConfig
      else (case queryByNumber fs phoneNumber' of
              Throws m \<Rightarrow> Returns getDefaultBusinessConfig
            | Returns [] \<Rightarrow>
                (case queryByMockNumber fs phoneNumber' of
                   Throws m \<Rightarrow> Returns getDefaultBusinessConfig
                 | Returns [] \<Rightarrow> Returns getDefaultBusinessConfig
                 | Returns ((docId, businessData') # others) \<Rightarrow>
                     Returns \<lparr>businessId = docId, data = businessData', found = True,
                              isSharedNumber = True, isDefault = False\<rparr>)
            | Returns ((docId, businessData') # others) \<Rightarrow>
                Returns \<lparr>businessId = docId, data = businessData', found = True,
                         isSharedNumber = False, isDefault = False\<rparr>))"

definition getBusinessAIConfig :: "bool \<Rightarrow> firestore \<Rightarrow> string \<Rightarrow> aiConfig outcome" where
  "getBusinessAIConfig initialized fs businessId' =
     (if \<not> initialized \<or> businessId' = ''default'' then Returns getDefaultAIConfig
      else (case aiAssistantDoc fs businessId' of
              Throws m \<Rightarrow> Returns getDefaultAIConfig
            | Returns None \<Rightarrow> Returns getDefaultAIConfig
            | Returns (Some config) \<Rightarrow> Returns config))"

definition getBusinessData :: "bool \<Rightarrow> firestore \<Rightarrow> string \<Rightarrow> businessData option outcome" where
  "getBusinessData initialized fs businessId' =
     (if \<not> initialized \<or> businessId' = ''default'' then Returns None
      else (case businessDoc fs businessId' of
              Throws m \<Rightarrow> Returns None
            | Returns d \<Rightarrow> Returns d))"

text \<open>An industry template. Only the fields that the business context copies are kept;
  the prompt, greeting and seasonal texts of a template are not read by the resolution.\<close>

record industryTemplate =
  template :: string
  templateServices :: "string list"
  templateEmergencyKeywords :: "string list"

definition industryTemplates :: "(string \<times> industryTemplate) list" where
  "industryTemplates =
     [(''hvac'', \<lparr>template = ''hvac_base'',
         templateServices = [''heating'', ''cooling'', ''air conditioning'', ''ventilation'', ''ductwork'', ''heat pumps''],
         templateEmergencyKeywords = [''no heat'', ''no air'', ''no cooling'', ''furnace down'', ''ac down'', ''leak'', ''emergency'']\<rparr>),
      (''plumbing'', \<lparr>template = ''plumbing_base'',
         templateServices = [''leak repair'', ''drain cleaning'', ''water heater'', ''pipe installation'', ''toilet repair'', ''faucet repair''],
         templateEmergencyKeywords = [''leak'', ''flood'', ''no water'', ''burst pipe'', ''overflow'', ''emergency'', ''water everywhere'']\<rparr>),
      (''electrical'', \<lparr>template = ''electrical_base'',
         templateServices = [''wiring'', ''outlet installation'', ''panel upgrade'', ''lighting'', ''circuit repair'', ''safety inspection''],
         templateEmergencyKeywords = [''no power'', ''sparks'', ''burning smell'', ''shock'', ''electrical fire'', ''emergency'']\<rparr>),
      (''roofing'', \<lparr>template = ''roofing_base'',
         templateServices = [''roof repair'', ''roof replacement'', ''leak repair'', ''gutter installation'', ''storm damage''],
         templateEmergencyKeywords = [''leak'', ''storm damage'', ''collapsed'', ''emergency'', ''water coming in'']\<rparr>),
      (''general-contractor'', \<lparr>template = ''contractor_base'',
         templateServices = [''home renovation'', ''kitchen remodel'', ''bathroom remodel'', ''additions'', ''repairs''],
         templateEmergencyKeywords = [''structural damage'', ''water damage'', ''emergency repair'']\<rparr>),
      (''general'', \<lparr>template = ''general_base'',
         templateServices = [''various services''],
         templateEmergencyKeywords = [''emergency'', ''urgent'', ''immediate'']\<rparr>)]"

text \<open>\<^verbatim>\<open>this.industryTemplates[industry] || this.industryTemplates.general\<close>, for an
  industry that is not the name of a property that every object inherits.\<close>

definition templateFor :: "string \<Rightarrow> industryTemplate" where
  "templateFor industry' =
     (case map_of industryTemplates industry' of
        Some t \<Rightarrow> t
      | None \<Rightarrow> the (map_of industryTemplates ''general''))"

record businessContext =
  ctx_businessId :: string
  ctx_companyName :: string
  ctx_industry :: string
  ctx_services :: "string list"
  ctx_schedule :: schedule
  ctx_aiConfig :: aiConfig
  ctx_industryTemplate :: industryTemplate
  ctx_emergencyKeywords :: "string list"
  ctx_isDefault :: bool
  ctx_found :: bool

definition getDefaultBusinessContext :: businessContext where
  "getDefaultBusinessContext =
     \<lparr>ctx_businessId = ''default'', ctx_companyName = ''Blue Caller HVAC'', ctx_industry = ''hvac'',
      ctx_services = templateServices (templateFor ''hvac''),
      ctx_schedule = \<lparr>weekdayHours = Some \<lparr>opens = ''08:00'', closes = ''17:00''\<rparr>,
                      weekendHours = Some \<lparr>opens = ''09:00'', closes = ''15:00''\<rparr>\<rparr>,
      ctx_aiConfig = getDefaultAIConfig,
      ctx_industryTemplate = templateFor ''hvac'',
      ctx_emergencyKeywords = templateEmergencyKeywords (templateFor ''hvac''),
      ctx_isDefault = True, ctx_found = False\<rparr>"

text \<open>\<^verbatim>\<open>x || d\<close> for an optional string.\<close>

definition orElse :: "string option \<Rightarrow> string \<Rightarrow> string" where
  "orElse x d = (if truthy x then the x else d)"

text \<open>The object that \<^verbatim>\<open>getBusinessContext\<close> builds from a business and its assistant
  configuration.\<close>

definition contextOf :: "business \<Rightarrow> aiConfig \<Rightarrow> businessContext" where
  "contextOf b config =
     (let industry' = orElse (case profile (data b) of None \<Rightarrow> None | Some p \<Rightarrow> industry p) ''general'';
          industryTemplate' = templateFor industry'
      in \<lparr>ctx_businessId = businessId b,
          ctx_companyName =
            orElse (case profile (data b) of None \<Rightarrow> None | Some p \<Rightarrow> companyName p) ''Your Business'',
          ctx_industry = industry',
          ctx_services =
            (case servicesList (data b) of
               Some l \<Rightarrow> l
             | None \<Rightarrow> templateServices industryTemplate'),
          ctx_schedule =
            (case schedule (data b) of
               Some sch \<Rightarrow> sch
             | None \<Rightarrow> \<lparr>weekdayHours = None, weekendHours = None\<rparr>),
          ctx_aiConfig = config,
          ctx_industryTemplate = industryTemplate',
          ctx_emergencyKeywords = templateEmergencyKeywords industryTemplate',
          ctx_isDefault = isDefault b,
          ctx_found = found b\<rparr>)"

text \<open>The \<^verbatim>\<open>try\<close> block of \<^verbatim>\<open>getBusinessContext\<close>.\<close>

definition resolveBusiness ::
  "bool \<Rightarrow> firestore \<Rightarrow> string option \<Rightarrow> string \<Rightarrow> businessContext outcome" where
  "resolveBusiness initialized fs businessId' phoneNumber' =
     (case (if truthy businessId' \<and> businessId' \<noteq> Some ''default''
            then (case getBusinessData initialized fs (the businessId') of
                    Throws m \<Rightarrow> Throws m
                  | Returns None \<Rightarrow> findBusinessByPhone initialized fs phoneNumber'
                  | Returns (Some businessData') \<Rightarrow>
                      Returns \<lparr>businessId = the businessId', data = businessData', found = True,
                               isSharedNumber = False, isDefault = False\<rparr>)
            else findBusinessByPhone initialized fs phoneNumber') of
        Throws m \<Rightarrow> Throws m
      | Returns b \<Rightarrow>
          (case getBusinessAIConfig initialized fs (businessId b) of
             Throws m \<Rightarrow> Throws m
           | Returns config \<Rightarrow> Returns (contextOf b config)))"

definition getBusinessContext ::
  "bool \<Rightarrow> firestore \<Rightarrow> string option \<Rightarrow> string \<Rightarrow> businessContext outcome" where
  "getBusinessContext initialized fs businessId' phoneNumber' =
     (case resolveBusiness initialized fs businessId' phoneNumber' of
        Throws m \<Rightarrow> Returns getDefaultBusinessContext
      | Returns c \<Rightarrow> Returns c)"

text \<open>No business is found for a dialed number: the service is not initialised, or the
  first query throws, or it is empty and the second one throws or is empty.\<close>

definition lookupFailsOrEmpty :: "bool \<Rightarrow> firestore \<Rightarrow> string \<Rightarrow> bool" where
  "lookupFailsOrEmpty initialized fs phoneNumber' =
     (if \<not> initialized then True
      else (case queryByNumber fs phoneNumber' of
              Throws m \<Rightarrow> True
            | Returns [] \<Rightarrow>
                (case queryByMockNumber fs phoneNumber' of
                   Throws m \<Rightarrow> True
                 | Returns [] \<Rightarrow> True
                 | Returns (d # others) \<Rightarrow> False)
            | Returns (d # others) \<Rightarrow> False))"


section \<open>Predicates and example inputs\<close>

text \<open>The stored score of a session, and of a lead document, is the score recomputed from
  the lead information beside it.\<close>

definition sessionScored :: "session \<Rightarrow> bool" where
  "sessionScored s = (qualificationScore (leadInfo s) = calculateLeadScore (leadInfo s))"

definition leadDocScored :: "leadDoc \<Rightarrow> bool" where
  "leadDocScored d = (score d = calculateLeadScore (doc_leadInfo d)
     \<and> qualificationScore (doc_leadInfo d) = calculateLeadScore (doc_leadInfo d))"

definition scoresRecomputed :: "world \<Rightarrow> bool" where
  "scoresRecomputed w = (list_all sessionScored (map snd (conversationSessions w))
     \<and> list_all leadDocScored (map snd (leadsContainer w)))"

text \<open>The score field of the lead document stored for a phone number.\<close>

definition storedScore :: "world \<Rightarrow> string \<Rightarrow> int option" where
  "storedScore w phoneNumber' = map_option score (map_of (leadsContainer w) phoneNumber')"

text \<open>One word of ASCII letters, or two such words with white space between them.\<close>

definition oneOrTwoWords :: "string \<Rightarrow> bool" where
  "oneOrTwoWords n =
     (let w1 = takeWhile isAsciiLetter n;
          r = dropWhile isAsciiLetter n;
          w2 = dropWhile isWhiteSpace r
      in w1 \<noteq> [] \<and> (r = [] \<or> (takeWhile isWhiteSpace r \<noteq> [] \<and> w2 \<noteq> [] \<and> list_all isAsciiLetter w2)))"

text \<open>An invocation with no database configured, and one with a database on which every
  call returns; in both the completion service answers.\<close>

definition envMemory :: env where
  "envMemory =
     \<lparr>COSMOS_CONN = None, openaiReady = True, now = ''2025-01-01T00:00:00.000Z'',
      connectDb = Throws ''Connection timeout'', queryCallOk = False, queryHistoryOk = False,
      readLeadOk = False, createUserOk = False, createAssistantOk = False, upsertOk = False,
      completion = Returns ''We can help with that.''\<rparr>"

definition envDb :: env where
  "envDb =
     \<lparr>COSMOS_CONN = Some ''AccountEndpoint=https://db.example/;AccountKey=k;'',
      openaiReady = True, now = ''2025-01-01T00:00:00.000Z'',
      connectDb = Returns (), queryCallOk = True, queryHistoryOk = True,
      readLeadOk = True, createUserOk = True, createAssistantOk = True, upsertOk = True,
      completion = Returns ''We can help with that.''\<rparr>"

definition connectedWorld :: world where
  "connectedWorld = initialWorld\<lparr>isDbConnected := True\<rparr>"

text \<open>A turn webhook of the call \<open>CA1\<close> from \<open>+15550100\<close>.\<close>

definition webhook :: "field \<Rightarrow> number \<Rightarrow> request" where
  "webhook speech confidence =
     \<lparr>req_method = ''POST'',
      req_body = Some \<lparr>SpeechResult = speech, CallSid = ''CA1'', From = ''+15550100'',
                       Confidence = confidence\<rparr>\<rparr>"












text \<open>An invocation whose connection to the database times out, with the settings of
  \<open>envDb\<close>.\<close>

definition envTimeout :: env where
  "envTimeout = envDb\<lparr>connectDb := Throws ''Connection timeout''\<rparr>"

text \<open>An invocation on a connected database whose upsert of the lead fails.\<close>

definition envUpsertFails :: env where
  "envUpsertFails = envDb\<lparr>upsertOk := False\<rparr>"

text \<open>A directory that cannot be reached, and one that holds no business.\<close>

definition unreachableDirectory :: firestore where
  "unreachableDirectory =
     \<lparr>queryByNumber = (\<lambda>p. Throws ''UNAVAILABLE''), queryByMockNumber = (\<lambda>p. Throws ''UNAVAILABLE''),
      businessDoc = (\<lambda>i. Throws ''UNAVAILABLE''), aiAssistantDoc = (\<lambda>i. Throws ''UNAVAILABLE'')\<rparr>"

definition emptyDirectory :: firestore where
  "emptyDirectory =
     \<lparr>queryByNumber = (\<lambda>p. Returns []), queryByMockNumber = (\<lambda>p. Returns []),
      businessDoc = (\<lambda>i. Returns None), aiAssistantDoc = (\<lambda>i. Returns None)\<rparr>"

definition noCredentials :: firebaseEnv where
  "noCredentials =
     \<lparr>FB_PROJECT_ID = None, FB_CLIENT_EMAIL = None, FB_PRIVATE_KEY = None, adminApps = 0,
      initializeApp = Returns (), adminFirestore = Returns ()\<rparr>"


text \<open>The lead information held for a call in the fallback \<^verbatim>\<open>Map\<close>.\<close>

definition sessionLead :: "world \<Rightarrow> string \<Rightarrow> leadInfo option" where
  "sessionLead w callSid' = map_option leadInfo (map_of (conversationSessions w) callSid')"

text \<open>From one state of the lead information to a later one, the emergency flag is not
  cleared and the service type is not reset to \<^verbatim>\<open>null\<close>.\<close>

definition leadMonotone :: "leadInfo \<Rightarrow> leadInfo \<Rightarrow> bool" where
  "leadMonotone a b = ((hasEmergency a \<longrightarrow> hasEmergency b)
     \<and> (serviceType a \<noteq> None \<longrightarrow> serviceType b \<noteq> None))"

text \<open>The session object at the end of a turn with speech.\<close>

definition turnSession :: "env \<Rightarrow> session \<Rightarrow> string \<Rightarrow> session" where
  "turnSession e s0 speechResult =
     (let s2 = s0\<lparr>messages := messages s0 @ [\<lparr>role = ''user'', content = speechResult\<rparr>],
                  leadInfo := rescore (mergeLeadInfo (analyzeMessage speechResult) (leadInfo s0))\<rparr>
      in s2\<lparr>messages := messages s2 @
                [\<lparr>role = ''assistant'', content = getAIResponse e (messages s2)\<rparr>]\<rparr>)"

text \<open>A call in which an emergency about the heating has been recorded.\<close>

definition emergencyLead :: leadInfo where
  "emergencyLead = \<lparr>hasEmergency = True, serviceType = Some ''heating'', urgencyLevel = ''emergency'',
                     contactInfo = \<lparr>name = None\<rparr>, qualificationScore = 100\<rparr>"

definition emergencySession :: session where
  "emergencySession = \<lparr>messages = [], leadInfo = emergencyLead, callSid = ''CA1'',
                        phoneNumber = ''+15550100'', isFromDb = False\<rparr>"

definition emergencyWorld :: world where
  "emergencyWorld = initialWorld\<lparr>conversationSessions := [(''CA1'', emergencySession)]\<rparr>"


section \<open>The session of a call, turn after turn\<close>

text \<open>
  For a request that the handler processes as a turn: the call id and the session object
  at the end of the handler, whose \<^verbatim>\<open>leadInfo\<close> has been merged and rescored, is passed
  to \<^verbatim>\<open>updateLead\<close> and decides the follow-up prompt.
\<close>

definition processedSession :: "env \<Rightarrow> world \<Rightarrow> request \<Rightarrow> (string \<times> session) option" where
  "processedSession e w req =
     (case req_body req of
        None \<Rightarrow> None
      | Some formData' \<Rightarrow>
          (case SpeechResult formData' of
             Str s \<Rightarrow>
               if req_method req = ''POST'' \<and> trim s \<noteq> []
                  \<and> \<not> (numLess (Confidence formData') literal_0_3 \<and> length (trim s) < 3)
               then Some (CallSid formData',
                          turnSession e
                            (snd (getOrCreateSession e (fst (initializeCosmosDB e w))
                                    (CallSid formData') (From formData'))) s)
               else None
           | Undefined \<Rightarrow> None
           | NonString \<Rightarrow> None))"

text \<open>The lead information of the sessions of one call, one entry for each processed turn
  of the call in a run of webhooks.\<close>

fun sessionTrace :: "world \<Rightarrow> (env \<times> request) list \<Rightarrow> string \<Rightarrow> leadInfo list" where
  "sessionTrace w [] call = []"
| "sessionTrace w ((e, req) # rest) call =
     (case processedSession e w req of
        None \<Rightarrow> sessionTrace (run w [(e, req)]) rest call
      | Some (c, s) \<Rightarrow>
          if c = call then leadInfo s # sessionTrace (run w [(e, req)]) rest call
          else sessionTrace (run w [(e, req)]) rest call)"

text \<open>Each entry keeps what the entry before it had set.\<close>

fun monotoneTrace :: "leadInfo list \<Rightarrow> bool" where
  "monotoneTrace [] = True"
| "monotoneTrace [a] = True"
| "monotoneTrace (a # b # rest) = (leadMonotone a b \<and> monotoneTrace (b # rest))"

text \<open>
  How \<^verbatim>\<open>getOrCreateSession\<close> serves an invocation: from the fallback \<^verbatim>\<open>Map\<close> when
  the database is not connected or one of its two queries throws; from the database, with
  the lead record read and the lead upsert stored, when every database call returns.
\<close>

definition servedFromMemory :: "env \<Rightarrow> world \<Rightarrow> bool" where
  "servedFromMemory e w =
     (\<not> isDbConnected (fst (initializeCosmosDB e w)) \<or> \<not> queryCallOk e \<or> \<not> queryHistoryOk e)"

definition servedFromDb :: "env \<Rightarrow> world \<Rightarrow> bool" where
  "servedFromDb e w =
     (isDbConnected (fst (initializeCosmosDB e w)) \<and> queryCallOk e \<and> queryHistoryOk e
      \<and> readLeadOk e \<and> upsertOk e)"

text \<open>A webhook of the call is served from the fallback \<^verbatim>\<open>Map\<close>; a webhook from the
  phone number is served from the database.\<close>

definition turnFromMemory :: "string \<Rightarrow> env \<Rightarrow> world \<Rightarrow> request \<Rightarrow> bool" where
  "turnFromMemory call e w req =
     (case req_body req of
        None \<Rightarrow> True
      | Some formData' \<Rightarrow> CallSid formData' \<noteq> call \<or> servedFromMemory e w)"

definition turnFromDb :: "string \<Rightarrow> env \<Rightarrow> world \<Rightarrow> request \<Rightarrow> bool" where
  "turnFromDb phone e w req =
     (case req_body req of
        None \<Rightarrow> True
      | Some formData' \<Rightarrow> From formData' \<noteq> phone \<or> servedFromDb e w)"

text \<open>A condition on every invocation of a run, in the state that it finds.\<close>

fun everyStep ::
  "(env \<Rightarrow> world \<Rightarrow> request \<Rightarrow> bool) \<Rightarrow> world \<Rightarrow> (env \<times> request) list \<Rightarrow> bool" where
  "everyStep P w [] = True"
| "everyStep P w ((e, req) # rest) = (P e w req \<and> everyStep P (run w [(e, req)]) rest)"

text \<open>The webhooks of a call come from one caller.\<close>

definition callFrom :: "string \<Rightarrow> string \<Rightarrow> request \<Rightarrow> bool" where
  "callFrom call phone req =
     (case req_body req of
        None \<Rightarrow> True
      | Some formData' \<Rightarrow> CallSid formData' \<noteq> call \<or> From formData' = phone)"

text \<open>Every session of the fallback \<^verbatim>\<open>Map\<close> was created there.\<close>

definition fallbackInMemory :: "world \<Rightarrow> bool" where
  "fallbackInMemory w = list_all (\<lambda>s. \<not> isFromDb s) (map snd (conversationSessions w))"

text \<open>Two turns of the call \<open>CA1\<close>: the report of an emergency, then thanks.\<close>

definition emergencyTurn :: request where
  "emergencyTurn = webhook (Str ''no heat, my furnace is broken'') (Finite (9 / 10))"

definition thanksTurn :: request where
  "thanksTurn = webhook (Str ''thank you'') (Finite (9 / 10))"

text \<open>
  Runs of these two turns from the initial state: with no database configured; with the
  database answering every call; with the connection to the database timing out on the first
  turn and made on the second; with the upsert of the lead failing on the first turn.
\<close>

definition memoryCall :: "(env \<times> request) list" where
  "memoryCall = [(envMemory, emergencyTurn), (envMemory, thanksTurn)]"

definition dbCall :: "(env \<times> request) list" where
  "dbCall = [(envDb, emergencyTurn), (envDb, thanksTurn)]"

definition reconnectedCall :: "(env \<times> request) list" where
  "reconnectedCall = [(envTimeout, emergencyTurn), (envDb, thanksTurn)]"

definition upsertFailedCall :: "(env \<times> request) list" where
  "upsertFailedCall = [(envUpsertFails, emergencyTurn), (envDb, thanksTurn)]"

section \<open>Properties\<close>

subsection \<open>The lead score\<close>

lemma score_ignores_stored:
  "calculateLeadScore (li\<lparr>qualificationScore := q\<rparr>) = calculateLeadScore li"
  by (simp add: calculateLeadScore_def)

lemma rescore_scored: "qualificationScore (rescore li) = calculateLeadScore (rescore li)"
  by (simp add: rescore_def score_ignores_stored)

text \<open>
  C9. For every leadInfo the lead score is an integer between 10 and 100 inclusive: the
  base is 10, every bonus is non-negative and the result is capped at 100, so a scored lead
  never has the score 0.
\<close>

theorem C9_score_between_10_and_100:
  "10 \<le> calculateLeadScore li \<and> calculateLeadScore li \<le> 100 \<and> calculateLeadScore li \<noteq> 0"
  by (simp add: calculateLeadScore_def Let_def)

text \<open>
  C10. For every utterance the analysis returned by analyzeMessage has hasEmergency true
  exactly when urgencyLevel is 'emergency'; otherwise urgencyLevel is 'normal'.
\<close>

theorem C10_emergency_iff_urgency:
  "(hasEmergency (analyzeMessage message) \<longleftrightarrow> urgencyLevel (analyzeMessage message) = ''emergency'')
   \<and> (hasEmergency (analyzeMessage message) \<or> urgencyLevel (analyzeMessage message) = ''normal'')"
  by (simp add: analyzeMessage_def Let_def split: option.split)

text \<open>
  C2. The utterance "Hi, my name is John Smith, I need a new air conditioning system" is
  documented to give the contact name "John Smith", the service type "installation" and a
  score of at least 75. The code gives the name, but the service type "cooling" (its entry
  comes before "installation" and the keyword "air conditioning" matches) and the score 45.
\<close>

theorem C2_code_gives_cooling_and_45:
  "name (contactInfo (analyzeMessage ''Hi, my name is John Smith, I need a new air conditioning system''))
     = Some ''John Smith''
   \<and> serviceType (analyzeMessage ''Hi, my name is John Smith, I need a new air conditioning system'')
     = Some ''cooling''
   \<and> qualificationScore
        (mergeTurns defaultLeadInfo [''Hi, my name is John Smith, I need a new air conditioning system''])
     = 45"
  by code_simp

subsection \<open>The name pattern\<close>

lemma ws_not_letter: "isWhiteSpace c \<Longrightarrow> \<not> isAsciiLetter c"
  by (auto simp: isWhiteSpace_def isAsciiLetter_def)

lemma captureName_shape:
  assumes a: "captureName s = Some n"
  shows "oneOrTwoWords n"
proof -
  define r1 where "r1 = dropWhile isWhiteSpace s"
  define w1 where "w1 = takeWhile isAsciiLetter r1"
  define r2 where "r2 = dropWhile isAsciiLetter r1"
  define ws2 where "ws2 = takeWhile isWhiteSpace r2"
  define w2 where "w2 = takeWhile isAsciiLetter (dropWhile isWhiteSpace r2)"
  have w1: "w1 \<noteq> []" and n: "n = (if ws2 \<noteq> [] \<and> w2 \<noteq> [] then w1 @ ws2 @ w2 else w1)"
    using a by (auto simp: captureName_def Let_def r1_def w1_def r2_def ws2_def w2_def split: if_splits)
  have all1: "\<forall>c\<in>set w1. isAsciiLetter c" unfolding w1_def by (auto dest: set_takeWhileD)
  have all2: "\<forall>c\<in>set w2. isAsciiLetter c" unfolding w2_def by (auto dest: set_takeWhileD)
  have allws: "\<forall>c\<in>set ws2. isWhiteSpace c" unfolding ws2_def by (auto dest: set_takeWhileD)
  show ?thesis
  proof (cases "ws2 \<noteq> [] \<and> w2 \<noteq> []")
    case False
    have nw: "n = w1" using False n by auto
    have tw: "takeWhile isAsciiLetter w1 = w1" using all1 by (simp add: takeWhile_eq_all_conv)
    have dw: "dropWhile isAsciiLetter w1 = []" using all1 by simp
    show ?thesis unfolding oneOrTwoWords_def Let_def nw tw dw using w1 by simp
  next
    case True
    then have n': "n = w1 @ ws2 @ w2" using n by auto
    have hdws: "\<not> isAsciiLetter (hd ws2)" using True allws ws_not_letter by (cases ws2) auto
    have hdw2: "\<not> isWhiteSpace (hd w2)" using True all2 ws_not_letter by (cases w2) auto
    have t1: "takeWhile isAsciiLetter n = w1"
      using n' all1 hdws True by (cases ws2) (auto simp: takeWhile_append2)
    have d1: "dropWhile isAsciiLetter n = ws2 @ w2"
      using n' all1 hdws True by (cases ws2) (auto simp: dropWhile_append2)
    have t2: "takeWhile isWhiteSpace (ws2 @ w2) = ws2"
      using allws hdw2 True by (cases w2) (auto simp: takeWhile_append2)
    have d2: "dropWhile isWhiteSpace (ws2 @ w2) = w2"
      using allws hdw2 True by (cases w2) (auto simp: dropWhile_append2)
    show ?thesis unfolding oneOrTwoWords_def Let_def t1 d1 t2 d2
      using True w1 all2 by (simp add: list_all_iff)
  qed
qed

lemma firstAlternative_shape: "firstAlternative ps s = Some n \<Longrightarrow> oneOrTwoWords n"
  by (induction ps) (auto split: option.splits dest: captureName_shape)

lemma matchAt_shape: "matchAt s = Some n \<Longrightarrow> oneOrTwoWords n"
  unfolding matchAt_def by (rule firstAlternative_shape)

lemma nameMatch_shape: "nameMatch s = Some n \<Longrightarrow> oneOrTwoWords n"
  by (induction s) (auto split: option.splits dest: matchAt_shape)

lemma dropWhile_id: "xs \<noteq> [] \<Longrightarrow> \<not> P (hd xs) \<Longrightarrow> dropWhile P xs = xs"
  by (cases xs) auto

lemma words_trim:
  assumes "oneOrTwoWords n"
  shows "trim n = n"
proof -
  define w1 where "w1 = takeWhile isAsciiLetter n"
  define r where "r = dropWhile isAsciiLetter n"
  have nn: "n = w1 @ r" by (simp add: w1_def r_def)
  have w1: "w1 \<noteq> []" using assms by (simp add: oneOrTwoWords_def Let_def w1_def)
  have nne: "n \<noteq> []" using w1 nn by auto
  have "isAsciiLetter (hd n)" using w1 unfolding w1_def by (cases n) (auto split: if_splits)
  then have h: "\<not> isWhiteSpace (hd n)" using ws_not_letter by blast
  have lastn: "isAsciiLetter (last n)"
  proof (cases "r = []")
    case True
    then have "n = w1" using nn by simp
    then have "set n = set (takeWhile isAsciiLetter n)" using w1_def by simp
    moreover have "last n \<in> set n" using nne by simp
    ultimately have "last n \<in> set (takeWhile isAsciiLetter n)" by simp
    then show ?thesis by (rule set_takeWhileD[THEN conjunct2])
  next
    case False
    then have w2: "dropWhile isWhiteSpace r \<noteq> []" "list_all isAsciiLetter (dropWhile isWhiteSpace r)"
      using assms by (auto simp: oneOrTwoWords_def Let_def r_def)
    have "n = (w1 @ takeWhile isWhiteSpace r) @ dropWhile isWhiteSpace r" using nn by simp
    then have "last n = last (dropWhile isWhiteSpace r)" using w2(1) last_appendR by metis
    moreover have "last (dropWhile isWhiteSpace r) \<in> set (dropWhile isWhiteSpace r)"
      using w2(1) by simp
    ultimately show ?thesis using w2(2) by (simp add: list_all_iff)
  qed
  have "hd (rev n) = last n" using nne by (simp add: hd_rev)
  then have l: "\<not> isWhiteSpace (hd (rev n))" using lastn ws_not_letter by auto
  have d1: "dropWhile isWhiteSpace n = n" using nne h by (rule dropWhile_id)
  have "rev n \<noteq> []" using nne by simp
  then have d2: "dropWhile isWhiteSpace (rev n) = rev n" using l by (rule dropWhile_id)
  show ?thesis unfolding trim_def d1 d2 by simp
qed

lemma analyze_name: "name (contactInfo (analyzeMessage m)) = nameMatch m"
  by (auto simp: analyzeMessage_def Let_def words_trim nameMatch_shape split: option.splits)

text \<open>
  C8, as stated, fails: for the input "I'm calling about..." the extracted contact name is
  not "calling".
\<close>

theorem C8_counterexample:
  "name (contactInfo (analyzeMessage ''I'm calling about...'')) \<noteq> Some ''calling''"
  by code_simp

text \<open>
  C8, amended. Name extraction is a single pattern, an alternation over "my name is",
  "I'm" and "I am" that ignores case, followed by white space and one or two words of ASCII
  letters of either case, with no dictionary validation: the contact name of an analysis is
  the capture of the leftmost match, every extracted name is one such word or two of them
  with white space between, "my name is John Smith," gives "John Smith", and for the input
  "I'm calling about..." the extracted name is "calling about".
\<close>

theorem C8_name_extraction_amended:
  "name (contactInfo (analyzeMessage message)) = nameMatch message
   \<and> (nameMatch message = Some n \<longrightarrow> oneOrTwoWords n)
   \<and> nameMatch ''Hi, my name is John Smith, I need help'' = Some ''John Smith''
   \<and> name (contactInfo (analyzeMessage ''I'm calling about...'')) = Some ''calling about''"
proof -
  have "nameMatch ''Hi, my name is John Smith, I need help'' = Some ''John Smith''"
    by code_simp
  moreover have "name (contactInfo (analyzeMessage ''I'm calling about...'')) = Some ''calling about''"
    by code_simp
  ultimately show ?thesis
    using analyze_name[of message] nameMatch_shape[of message n] by blast
qed

theorem C8_name_extraction_witness:
  "nameMatch ''I'm calling about...'' = Some ''calling about'' \<and> oneOrTwoWords ''calling about''"
proof -
  have m: "nameMatch ''I'm calling about...'' = Some ''calling about''"
    by code_simp
  show ?thesis
    using C8_name_extraction_amended[of "''I'm calling about...''" "''calling about''"] m by blast
qed

subsection \<open>The lead store\<close>

lemma updateLead_leads_eq:
  "leadsContainer (fst (updateLead e w p li c)) =
     (if isDbConnected w \<and> upsertOk e
      then AList.update p \<lparr>doc_id = p, doc_phoneNumber = p, doc_leadInfo = li, lastContact = now e,
             lastCallSid = c, score = calculateLeadScore li, ttl = 60 * 60 * 24 * 365 * 2\<rparr>
             (leadsContainer w)
      else leadsContainer w)"
  by (simp add: updateLead_def Let_def)

lemma updateLead_twice:
  assumes "updateLead e1 w p li c1 = (w1, r1)"
      and "updateLead e2 w1 p li c2 = (w2, r2)"
      and "r1 \<or> \<not> r2"
  shows "storedScore w2 p = storedScore w1 p \<and> (r1 \<longrightarrow> storedScore w1 p = Some (calculateLeadScore li))"
  using assms
  by (auto simp: updateLead_def storedScore_def Let_def update_conv' split: if_splits)

text \<open>
  C5. The lead upsert is idempotent with respect to the stored score: when updateLead is
  performed twice with the same leadInfo and the same phone number, the score of the stored
  lead record after the second call is the one after the first call, which is the score
  computed from that leadInfo. (Each call reports whether it stored the record; the one
  sequence excluded is a first call whose upsert failed followed by one that succeeded.)
\<close>

theorem C5_upsert_score_idempotent:
  assumes "updateLead e1 w phone li call1 = (w1, stored1)"
      and "updateLead e2 w1 phone li call2 = (w2, stored2)"
      and "stored1 \<or> \<not> stored2"
  shows "storedScore w2 phone = storedScore w1 phone
         \<and> (stored1 \<longrightarrow> storedScore w1 phone = Some (calculateLeadScore li))"
  using assms by (rule updateLead_twice)

theorem C5_upsert_score_idempotent_witness:
  "snd (updateLead envDb connectedWorld ''+15550100'' emergencyLead ''CA1'')
   \<and> storedScore (fst (updateLead envDb (fst (updateLead envDb connectedWorld ''+15550100'' emergencyLead ''CA1''))
                         ''+15550100'' emergencyLead ''CA2'')) ''+15550100''
       = storedScore (fst (updateLead envDb connectedWorld ''+15550100'' emergencyLead ''CA1'')) ''+15550100''
   \<and> storedScore (fst (updateLead envDb connectedWorld ''+15550100'' emergencyLead ''CA1'')) ''+15550100''
       = Some 100"
proof -
  have s: "snd (updateLead envDb connectedWorld ''+15550100'' emergencyLead ''CA1'')"
    by (simp add: updateLead_def envDb_def connectedWorld_def initialWorld_def)
  have c: "calculateLeadScore emergencyLead = 100"
    by (simp add: calculateLeadScore_def emergencyLead_def)
  have h1: "updateLead envDb connectedWorld ''+15550100'' emergencyLead ''CA1''
            = (fst (updateLead envDb connectedWorld ''+15550100'' emergencyLead ''CA1''), True)"
    using s by (simp add: prod_eq_iff)
  have h2: "updateLead envDb (fst (updateLead envDb connectedWorld ''+15550100'' emergencyLead ''CA1''))
              ''+15550100'' emergencyLead ''CA2''
            = (fst (updateLead envDb (fst (updateLead envDb connectedWorld ''+15550100'' emergencyLead ''CA1''))
                      ''+15550100'' emergencyLead ''CA2''),
               snd (updateLead envDb (fst (updateLead envDb connectedWorld ''+15550100'' emergencyLead ''CA1''))
                      ''+15550100'' emergencyLead ''CA2''))"
    by simp
  show ?thesis
    using C5_upsert_score_idempotent[OF h1 h2] s c by simp
qed

subsection \<open>The handler of voice-stream\<close>

lemma trim_nonempty: "trim s \<noteq> [] \<Longrightarrow> s \<noteq> []"
  by (auto simp: trim_def)

lemma numLess_irrefl: "\<not> numLess x x"
  by (cases x) auto

text \<open>Every result of the handler.\<close>

lemma voiceStream_cases:
  "(\<not> (req_method req = ''POST'' \<and> req_body req \<noteq> None)
      \<and> voiceStream e w req = Inr (fst (initializeCosmosDB e w), readyResponse))
   \<or> voiceStream e w req = Inr (fst (initializeCosmosDB e w), clarificationResponse)
   \<or> voiceStream e w req = Inr (fst (initializeCosmosDB e w), noSpeechResponse)
   \<or> voiceStream e w req = Inr (fst (initializeCosmosDB e w), errorResponse)
   \<or> (\<exists>fd s. req_body req = Some fd \<and> req_method req = ''POST'' \<and> SpeechResult fd = Str s
         \<and> trim s \<noteq> []
         \<and> voiceStream e w req =
             Inr (processTurn e (fst (initializeCosmosDB e w)) s (CallSid fd) (From fd)))"
proof (cases "req_body req")
  case None
  then show ?thesis by (simp add: voiceStream_def handleRequest_def)
next
  case (Some fd)
  show ?thesis
  proof (cases "SpeechResult fd")
    case Undefined
    then show ?thesis using Some
      by (simp add: voiceStream_def handleRequest_def afterFilter_def Let_def)
  next
    case (Str s)
    then show ?thesis using Some
      by (auto simp: voiceStream_def handleRequest_def afterFilter_def Let_def trim_def)
  next
    case NonString
    then show ?thesis using Some
      by (simp add: voiceStream_def handleRequest_def afterFilter_def Let_def)
  qed
qed

lemma voiceStream_total: "\<exists>w' r. voiceStream e w req = Inr (w', r)"
  using voiceStream_cases[where e=e and w=w and req=req] by (metis prod.collapse)

lemma voiceStream_filter:
  assumes "req_method req = ''POST''" "req_body req = Some fd" "SpeechResult fd = Str s"
  shows "(\<not> numLess (Confidence fd) literal_0_3 \<and> trim s \<noteq> [] \<longrightarrow>
            voiceStream e w req =
              Inr (processTurn e (fst (initializeCosmosDB e w)) s (CallSid fd) (From fd)))
       \<and> (numLess (Confidence fd) literal_0_3 \<and> s \<noteq> [] \<and> length (trim s) < 3 \<longrightarrow>
            voiceStream e w req = Inr (fst (initializeCosmosDB e w), clarificationResponse))
       \<and> (numLess (Confidence fd) literal_0_3 \<and> 3 \<le> length (trim s) \<longrightarrow>
            voiceStream e w req =
              Inr (processTurn e (fst (initializeCosmosDB e w)) s (CallSid fd) (From fd)))"
  using assms trim_nonempty[of s]
  by (auto simp: voiceStream_def handleRequest_def afterFilter_def Let_def)

lemma webhook_fields:
  "req_method (webhook speech confidence) = ''POST''"
  "req_body (webhook speech confidence) =
     Some \<lparr>SpeechResult = speech, CallSid = ''CA1'', From = ''+15550100'', Confidence = confidence\<rparr>"
  by (simp_all add: webhook_def)

lemma initialize_memory: "fst (initializeCosmosDB envMemory w) = w"
  by (simp add: initializeCosmosDB_def envMemory_def)

lemma low_confidence: "numLess (Finite (1 / 20)) literal_0_3"
  by (simp add: literal_0_3_def)

lemma trim_furnace: "trim ''my furnace is broken'' = ''my furnace is broken''"
  by code_simp

lemma boundary_confidence: "\<not> numLess literal_0_3 literal_0_3"
  by (rule numLess_irrefl)

text \<open>
  C1. A recognition result whose confidence is exactly at the threshold 0.3 and whose text
  is not empty is accepted and processed as a normal turn, and any result with confidence
  below the threshold is rejected with the repetition-request markup, without analysis and
  without the call of the completion service. The code keeps the first half and breaks the
  second: its filter also requires the trimmed text to be shorter than 3 characters, so the
  result with confidence 0.05 and the text "my furnace is broken" is not rejected. The
  handler calls the completion service and answers with its reply, and the analysis sets
  the service type of the session; the same text at confidence exactly 0.3 is processed,
  and at confidence 0.05 only a text like "uh" gets the repetition request.
\<close>

theorem C1_low_confidence_turn_is_processed:
  "numLess (Finite (1 / 20)) literal_0_3
   \<and> responseOf (voiceStream envMemory initialWorld (webhook (Str ''my furnace is broken'') (Finite (1 / 20))))
       = Some (turnResponse ''We can help with that.'' ''What's your name for our records?'')
   \<and> responseOf (voiceStream envMemory initialWorld (webhook (Str ''my furnace is broken'') (Finite (1 / 20))))
       \<noteq> Some clarificationResponse
   \<and> map_option serviceType
        (sessionLead (run initialWorld [(envMemory, webhook (Str ''my furnace is broken'') (Finite (1 / 20)))])
           ''CA1'')
       = Some (Some ''heating'')
   \<and> voiceStream envMemory initialWorld (webhook (Str ''my furnace is broken'') literal_0_3)
       = Inr (processTurn envMemory initialWorld ''my furnace is broken'' ''CA1'' ''+15550100'')
   \<and> voiceStream envMemory initialWorld (webhook (Str ''uh'') (Finite (1 / 20)))
       = Inr (initialWorld, clarificationResponse)"
proof -
  have v: "voiceStream envMemory initialWorld (webhook (Str ''my furnace is broken'') (Finite (1 / 20)))
           = Inr (processTurn envMemory initialWorld ''my furnace is broken'' ''CA1'' ''+15550100'')"
    using voiceStream_filter[of "webhook (Str ''my furnace is broken'') (Finite (1 / 20))"
        "\<lparr>SpeechResult = Str ''my furnace is broken'', CallSid = ''CA1'', From = ''+15550100'',
          Confidence = Finite (1 / 20)\<rparr>" "''my furnace is broken''" envMemory initialWorld]
    by (simp add: webhook_fields initialize_memory low_confidence trim_furnace)
  have r: "snd (processTurn envMemory initialWorld ''my furnace is broken'' ''CA1'' ''+15550100'')
           = turnResponse ''We can help with that.'' ''What's your name for our records?''"
    by code_simp
  have d: "turnResponse ''We can help with that.'' ''What's your name for our records?''
           \<noteq> clarificationResponse"
    by code_simp
  have l: "map_option serviceType
             (sessionLead (fst (processTurn envMemory initialWorld ''my furnace is broken'' ''CA1'' ''+15550100''))
                ''CA1'') = Some (Some ''heating'')"
    by code_simp
  have rr: "responseOf (Inr (processTurn envMemory initialWorld ''my furnace is broken'' ''CA1'' ''+15550100''))
           = Some (snd (processTurn envMemory initialWorld ''my furnace is broken'' ''CA1'' ''+15550100''))"
    by (cases "processTurn envMemory initialWorld ''my furnace is broken'' ''CA1'' ''+15550100''") simp
  have ru: "run initialWorld [(envMemory, webhook (Str ''my furnace is broken'') (Finite (1 / 20)))]
           = fst (processTurn envMemory initialWorld ''my furnace is broken'' ''CA1'' ''+15550100'')"
    using v by (cases "processTurn envMemory initialWorld ''my furnace is broken'' ''CA1'' ''+15550100''") simp
  have t: "trim ''uh'' = ''uh''" by code_simp
  have a: "voiceStream envMemory initialWorld (webhook (Str ''my furnace is broken'') literal_0_3)
     = Inr (processTurn envMemory initialWorld ''my furnace is broken'' ''CA1'' ''+15550100'')"
    using voiceStream_filter[of "webhook (Str ''my furnace is broken'') literal_0_3"
        "\<lparr>SpeechResult = Str ''my furnace is broken'', CallSid = ''CA1'', From = ''+15550100'',
          Confidence = literal_0_3\<rparr>" "''my furnace is broken''" envMemory initialWorld]
    by (simp add: webhook_fields initialize_memory boundary_confidence trim_furnace)
  have b: "voiceStream envMemory initialWorld (webhook (Str ''uh'') (Finite (1 / 20)))
     = Inr (initialWorld, clarificationResponse)"
    using voiceStream_filter[of "webhook (Str ''uh'') (Finite (1 / 20))"
        "\<lparr>SpeechResult = Str ''uh'', CallSid = ''CA1'', From = ''+15550100'',
          Confidence = Finite (1 / 20)\<rparr>" "''uh''" envMemory initialWorld]
    by (simp add: webhook_fields initialize_memory low_confidence t)
  show ?thesis using low_confidence v r d l rr ru a b by simp
qed

subsection \<open>Scores and monotone merging across webhooks\<close>

lemma list_all_update:
  "list_all P (map snd al) \<Longrightarrow> P v \<Longrightarrow> list_all P (map snd (AList.update k v al))"
  by (induction al) auto

lemma saveMessage_keeps:
  "conversationSessions (fst (saveMessage ok e w c p r t)) = conversationSessions w"
  "leadsContainer (fst (saveMessage ok e w c p r t)) = leadsContainer w"
  "isDbConnected (fst (saveMessage ok e w c p r t)) = isDbConnected w"
  by (simp_all add: saveMessage_def)

lemma updateLead_sessions:
  "conversationSessions (fst (updateLead e w p li c)) = conversationSessions w"
  by (simp add: updateLead_def Let_def)

lemma getOrCreateSession_leads:
  "leadsContainer (fst (getOrCreateSession e w c p)) = leadsContainer w"
  by (simp add: getOrCreateSession_def split: option.splits)

lemma getOrCreateSession_sessions:
  "conversationSessions (fst (getOrCreateSession e w c p)) = conversationSessions w
   \<or> (map_of (conversationSessions w) c = None
       \<and> conversationSessions (fst (getOrCreateSession e w c p)) =
           AList.update c (newMemorySession c p) (conversationSessions w))"
  by (simp add: getOrCreateSession_def split: option.splits)

lemma getOrCreateSession_existing:
  "map_of (conversationSessions w) c = Some s \<Longrightarrow> \<not> isFromDb (snd (getOrCreateSession e w c p))
     \<Longrightarrow> snd (getOrCreateSession e w c p) = s"
  by (auto simp: getOrCreateSession_def sessionFromDb_def Let_def split: option.splits if_splits)

lemma getOrCreateSession_other:
  "k \<noteq> c \<Longrightarrow>
   map_of (conversationSessions (fst (getOrCreateSession e w c p))) k = map_of (conversationSessions w) k"
  by (auto simp: getOrCreateSession_def update_conv' split: option.splits)

lemma getOrCreateSession_same:
  "map_of (conversationSessions w) c = Some s \<Longrightarrow>
   conversationSessions (fst (getOrCreateSession e w c p)) = conversationSessions w"
  by (auto simp: getOrCreateSession_def split: option.splits)

lemma processTurn_sessions:
  "conversationSessions (fst (processTurn e w speech c p)) =
     (let (w1, s0) = getOrCreateSession e w c p in
      if isFromDb s0 then conversationSessions w1
      else AList.update c (turnSession e s0 speech) (conversationSessions w1))"
  by (simp add: processTurn_def Let_def turnSession_def saveMessage_keeps updateLead_sessions
        split: prod.splits)

lemma processTurn_leads:
  assumes "list_all leadDocScored (map snd (leadsContainer w))"
  shows "list_all leadDocScored (map snd (leadsContainer (fst (processTurn e w speech c p))))"
proof -
  obtain w1 s0 where g: "getOrCreateSession e w c p = (w1, s0)"
    by (cases "getOrCreateSession e w c p")
  have l: "leadsContainer w1 = leadsContainer w"
    using getOrCreateSession_leads[of e w c p] g by simp
  show ?thesis
    using assms
    by (simp add: processTurn_def g Let_def updateLead_leads_eq saveMessage_keeps l
          list_all_update leadDocScored_def rescore_scored score_ignores_stored rescore_def)
qed

lemma turnSession_scored: "sessionScored (turnSession e s0 speech)"
  by (simp add: turnSession_def sessionScored_def Let_def rescore_scored)

lemma turnSession_leadInfo:
  "leadInfo (turnSession e s0 speech) = rescore (mergeLeadInfo (analyzeMessage speech) (leadInfo s0))"
  by (simp add: turnSession_def Let_def)

lemma processTurn_scored_sessions:
  assumes "list_all sessionScored (map snd (conversationSessions w))"
  shows "list_all sessionScored (map snd (conversationSessions (fst (processTurn e w speech c p))))"
proof -
  obtain w1 s0 where g: "getOrCreateSession e w c p = (w1, s0)"
    by (cases "getOrCreateSession e w c p")
  have alt: "conversationSessions w1 = conversationSessions w
     \<or> conversationSessions w1 = AList.update c (newMemorySession c p) (conversationSessions w)"
    using getOrCreateSession_sessions[of e w c p] g by auto
  show ?thesis
  proof (cases "isFromDb s0")
    case True
    have "conversationSessions w1 = conversationSessions w"
      using g True
      by (auto simp: getOrCreateSession_def newMemorySession_def split: option.splits if_splits)
    then show ?thesis using assms g True by (simp add: processTurn_sessions)
  next
    case False
    have "list_all sessionScored
            (map snd (AList.update c (turnSession e s0 speech) (conversationSessions w1)))"
      using alt
    proof
      assume "conversationSessions w1 = conversationSessions w"
      then show ?thesis using assms by (simp add: list_all_update turnSession_scored)
    next
      assume "conversationSessions w1 = AList.update c (newMemorySession c p) (conversationSessions w)"
      then show ?thesis using assms by (simp add: list_all_update turnSession_scored)
    qed
    then show ?thesis using g False by (simp add: processTurn_sessions)
  qed
qed

lemma processTurn_scores:
  "scoresRecomputed w \<Longrightarrow> scoresRecomputed (fst (processTurn e w speech c p))"
  by (simp add: scoresRecomputed_def processTurn_leads processTurn_scored_sessions)

lemma initialize_keeps:
  "conversationSessions (fst (initializeCosmosDB e w)) = conversationSessions w"
  "leadsContainer (fst (initializeCosmosDB e w)) = leadsContainer w"
  by (simp_all add: initializeCosmosDB_def split: outcome.splits)

lemma initialize_scores: "scoresRecomputed (fst (initializeCosmosDB e w)) = scoresRecomputed w"
  by (simp add: scoresRecomputed_def initialize_keeps)

lemma voiceStream_scores:
  assumes "scoresRecomputed w" "voiceStream e w req = Inr (w', r)"
  shows "scoresRecomputed w'"
  using voiceStream_cases[where e=e and w=w and req=req] assms
  by (auto simp: initialize_scores) (metis fst_conv initialize_scores processTurn_scores)

lemma run_scores: "scoresRecomputed w \<Longrightarrow> scoresRecomputed (run w steps)"
proof (induction steps arbitrary: w)
  case Nil
  then show ?case by simp
next
  case (Cons a steps)
  obtain e req where a: "a = (e, req)" by (cases a)
  obtain w' r where v: "voiceStream e w req = Inr (w', r)" using voiceStream_total by blast
  then show ?case using Cons a voiceStream_scores by simp
qed

lemma initial_scores: "scoresRecomputed initialWorld"
  by (simp add: scoresRecomputed_def initialWorld_def)

text \<open>
  C3. The qualification score is a function of the other leadInfo fields: the value
  computed by calculateLeadScore does not depend on the score that the leadInfo already
  holds, so recomputing from the same leadInfo gives the same score. The stored score is
  always that recomputation: after any run of webhooks that starts with no session and no
  lead record, and more generally from any state in which it holds, every session of the
  fallback store and every lead record holds the score computed from its own leadInfo.
\<close>

theorem C3_score_is_recomputed:
  "calculateLeadScore (li\<lparr>qualificationScore := q\<rparr>) = calculateLeadScore li
   \<and> qualificationScore (rescore li) = calculateLeadScore (rescore li)
   \<and> scoresRecomputed (run initialWorld steps)
   \<and> (scoresRecomputed w \<longrightarrow> scoresRecomputed (run w steps))"
  using score_ignores_stored[where li=li and q=q] rescore_scored[where li=li]
    run_scores[OF initial_scores, where steps=steps] run_scores[where w=w and steps=steps]
  by blast

theorem C3_score_is_recomputed_witness:
  "scoresRecomputed emergencyWorld
   \<and> scoresRecomputed (run emergencyWorld [(envMemory, webhook (Str ''thank you'') (Finite (9 / 10)))])
   \<and> map_option qualificationScore
        (sessionLead (run initialWorld [(envMemory, webhook (Str ''my furnace is broken'') (Finite (9 / 10)))])
           ''CA1'') = Some 30"
proof -
  have h: "scoresRecomputed emergencyWorld"
    by (simp add: scoresRecomputed_def emergencyWorld_def initialWorld_def sessionScored_def
          emergencySession_def emergencyLead_def calculateLeadScore_def)
  have v: "map_option qualificationScore
        (sessionLead (run initialWorld [(envMemory, webhook (Str ''my furnace is broken'') (Finite (9 / 10)))])
           ''CA1'') = Some 30"
    by code_simp
  show ?thesis
    using C3_score_is_recomputed[where li=emergencyLead and q=0 and w=emergencyWorld
        and steps="[(envMemory, webhook (Str ''thank you'') (Finite (9 / 10)))]"] h v
    by blast
qed

lemma merge_monotone: "leadMonotone li (rescore (mergeLeadInfo a li))"
  by (cases "serviceType a") (auto simp: leadMonotone_def rescore_def mergeLeadInfo_def Let_def)

lemma leadMonotone_refl: "leadMonotone a a"
  by (simp add: leadMonotone_def)

lemma leadMonotone_trans: "leadMonotone a b \<Longrightarrow> leadMonotone b c \<Longrightarrow> leadMonotone a c"
  by (auto simp: leadMonotone_def)

lemma mergeTurns_monotone: "leadMonotone li (mergeTurns li us)"
proof (induction us arbitrary: li)
  case Nil
  then show ?case by (simp add: leadMonotone_refl)
next
  case (Cons u us)
  show ?case
    using Cons[of "rescore (mergeLeadInfo (analyzeMessage u) li)"]
      merge_monotone[of li "analyzeMessage u"]
    by (auto intro: leadMonotone_trans)
qed

lemma processTurn_monotone:
  assumes "map_of (conversationSessions w) k = Some s"
  shows "\<exists>s'. map_of (conversationSessions (fst (processTurn e w speech c p))) k = Some s'
           \<and> leadMonotone (leadInfo s) (leadInfo s')"
proof -
  obtain w1 s0 where g: "getOrCreateSession e w c p = (w1, s0)"
    by (cases "getOrCreateSession e w c p")
  show ?thesis
  proof (cases "k = c")
    case True
    have same: "conversationSessions w1 = conversationSessions w"
      using getOrCreateSession_same[of w c s e p] assms True g by simp
    show ?thesis
    proof (cases "isFromDb s0")
      case True
      then show ?thesis using g same assms by (simp add: processTurn_sessions leadMonotone_refl)
    next
      case False
      have "s0 = s"
        using getOrCreateSession_existing[of w c s e p] assms \<open>k = c\<close> g False by simp
      then show ?thesis using g False \<open>k = c\<close>
        by (simp add: processTurn_sessions update_conv' turnSession_leadInfo merge_monotone)
    qed
  next
    case False
    have "map_of (conversationSessions w1) k = Some s"
      using getOrCreateSession_other[of k c e w p] False g assms by simp
    then show ?thesis using g False
      by (auto simp: processTurn_sessions update_conv' leadMonotone_refl)
  qed
qed

lemma voiceStream_monotone:
  assumes "map_of (conversationSessions w) k = Some s" "voiceStream e w req = Inr (w', r)"
  shows "\<exists>s'. map_of (conversationSessions w') k = Some s' \<and> leadMonotone (leadInfo s) (leadInfo s')"
proof -
  have i: "map_of (conversationSessions (fst (initializeCosmosDB e w))) k = Some s"
    using assms(1) by (simp add: initialize_keeps)
  from voiceStream_cases[where e=e and w=w and req=req] show ?thesis
  proof (elim disjE exE conjE)
    fix fd t
    assume "voiceStream e w req =
              Inr (processTurn e (fst (initializeCosmosDB e w)) t (CallSid fd) (From fd))"
    then have "w' = fst (processTurn e (fst (initializeCosmosDB e w)) t (CallSid fd) (From fd))"
      using assms(2) by (metis Inr_inject fst_conv)
    then show ?thesis using processTurn_monotone[OF i] by simp
  qed (use assms i in \<open>auto simp: leadMonotone_refl\<close>)
qed

lemma run_monotone:
  "map_of (conversationSessions w) k = Some s \<Longrightarrow>
   \<exists>s'. map_of (conversationSessions (run w steps)) k = Some s'
          \<and> leadMonotone (leadInfo s) (leadInfo s')"
proof (induction steps arbitrary: w s)
  case Nil
  then show ?case by (simp add: leadMonotone_refl)
next
  case (Cons a steps)
  obtain e req where a: "a = (e, req)" by (cases a)
  obtain w' r where v: "voiceStream e w req = Inr (w', r)" using voiceStream_total by blast
  obtain s1 where s1: "map_of (conversationSessions w') k = Some s1"
      "leadMonotone (leadInfo s) (leadInfo s1)"
    using voiceStream_monotone[OF Cons.prems v] by blast
  obtain s2 where "map_of (conversationSessions (run w' steps)) k = Some s2"
      "leadMonotone (leadInfo s1) (leadInfo s2)"
    using Cons.IH[OF s1(1)] by blast
  then show ?case using a v s1 by (auto intro: leadMonotone_trans)
qed

lemma monotoneTrace_tail: "monotoneTrace (a # t) \<Longrightarrow> monotoneTrace t"
  by (cases t) simp_all

lemma monotoneTrace_head: "leadMonotone a b \<Longrightarrow> monotoneTrace (b # t) \<Longrightarrow> monotoneTrace (a # t)"
  by (cases t) (auto intro: leadMonotone_trans)

lemma run_single:
  "run w [(e, req)] = (case voiceStream e w req of Inr (w', r) \<Rightarrow> w' | Inl err \<Rightarrow> w)"
  by (simp split: sum.splits prod.splits)

lemma step_none:
  "processedSession e w req = None \<Longrightarrow> run w [(e, req)] = fst (initializeCosmosDB e w)"
proof (cases "req_body req")
  case None
  then show ?thesis by (simp add: voiceStream_def handleRequest_def)
next
  case (Some fd)
  assume n: "processedSession e w req = None"
  show ?thesis
  proof (cases "SpeechResult fd")
    case Undefined
    then show ?thesis using Some
      by (simp add: voiceStream_def handleRequest_def afterFilter_def Let_def)
  next
    case (Str s)
    then show ?thesis using Some n trim_nonempty[of s]
      by (auto simp: voiceStream_def handleRequest_def afterFilter_def Let_def
            processedSession_def split: if_splits)
  next
    case NonString
    then show ?thesis using Some
      by (simp add: voiceStream_def handleRequest_def afterFilter_def Let_def)
  qed
qed

lemma step_some:
  assumes "processedSession e w req = Some (c, s)"
  shows "\<exists>fd speech. req_body req = Some fd \<and> c = CallSid fd
           \<and> s = turnSession e (snd (getOrCreateSession e (fst (initializeCosmosDB e w)) c (From fd))) speech
           \<and> run w [(e, req)] = fst (processTurn e (fst (initializeCosmosDB e w)) speech c (From fd))"
proof -
  obtain fd where fd: "req_body req = Some fd"
    using assms by (cases "req_body req") (auto simp: processedSession_def)
  obtain t where t: "SpeechResult fd = Str t"
    using assms fd by (cases "SpeechResult fd") (auto simp: processedSession_def)
  have c: "req_method req = ''POST''" "trim t \<noteq> []"
      "\<not> (numLess (Confidence fd) literal_0_3 \<and> length (trim t) < 3)"
      "c = CallSid fd"
      "s = turnSession e (snd (getOrCreateSession e (fst (initializeCosmosDB e w)) c (From fd))) t"
    using assms fd t by (auto simp: processedSession_def split: if_splits)
  have "voiceStream e w req =
          Inr (processTurn e (fst (initializeCosmosDB e w)) t (CallSid fd) (From fd))"
    using voiceStream_filter[OF c(1) fd t, of e w] c(2,3) by (cases "numLess (Confidence fd) literal_0_3") auto
  then have "run w [(e, req)] = fst (processTurn e (fst (initializeCosmosDB e w)) t c (From fd))"
    using c(4) by (simp add: split_beta)
  then show ?thesis using fd c by blast
qed

lemma initialize_connected: "isDbConnected w \<Longrightarrow> fst (initializeCosmosDB e w) = w"
  by (simp add: initializeCosmosDB_def)

lemma fallback_entry:
  "fallbackInMemory w \<Longrightarrow> map_of (conversationSessions w) c = Some s \<Longrightarrow> \<not> isFromDb s"
  by (auto simp: fallbackInMemory_def list_all_iff dest!: map_of_SomeD)

lemma memory_session:
  assumes "\<not> isDbConnected w1 \<or> \<not> queryCallOk e \<or> \<not> queryHistoryOk e"
  shows "snd (getOrCreateSession e w1 c p) =
           (case map_of (conversationSessions w1) c of Some s \<Rightarrow> s | None \<Rightarrow> newMemorySession c p)"
  using assms by (auto simp: getOrCreateSession_def sessionFromDb_def split: option.splits)

lemma db_session:
  assumes "isDbConnected w1" "queryCallOk e" "queryHistoryOk e" "readLeadOk e"
  shows "isFromDb (snd (getOrCreateSession e w1 c p))
         \<and> leadInfo (snd (getOrCreateSession e w1 c p)) =
             (case map_of (leadsContainer w1) p of Some d \<Rightarrow> doc_leadInfo d | None \<Rightarrow> defaultLeadInfo)
         \<and> fst (getOrCreateSession e w1 c p) = w1"
  using assms by (auto simp: getOrCreateSession_def sessionFromDb_def Let_def split: option.splits)

lemma turnSession_isFromDb: "isFromDb (turnSession e s0 speech) = isFromDb s0"
  by (simp add: turnSession_def Let_def)

lemma turn_map_same:
  "\<not> isFromDb (snd (getOrCreateSession e w1 c p)) \<Longrightarrow>
   map_of (conversationSessions (fst (processTurn e w1 speech c p))) c =
     Some (turnSession e (snd (getOrCreateSession e w1 c p)) speech)"
  by (simp add: processTurn_sessions split_beta update_conv')

lemma turn_map_other:
  "k \<noteq> c \<Longrightarrow>
   map_of (conversationSessions (fst (processTurn e w1 speech c p))) k =
     map_of (conversationSessions w1) k"
  using getOrCreateSession_other[of k c e w1 p]
  by (simp add: processTurn_sessions split_beta update_conv')

lemma getOrCreateSession_fallback:
  "fallbackInMemory w \<Longrightarrow> fallbackInMemory (fst (getOrCreateSession e w c p))"
  using getOrCreateSession_sessions[of e w c p]
  by (auto simp: fallbackInMemory_def list_all_update newMemorySession_def)

lemma processTurn_fallback:
  assumes "fallbackInMemory w"
  shows "fallbackInMemory (fst (processTurn e w speech c p))"
proof -
  have g: "list_all (\<lambda>s. \<not> isFromDb s)
             (map snd (conversationSessions (fst (getOrCreateSession e w c p))))"
    using getOrCreateSession_fallback[OF assms, of e c p] by (simp add: fallbackInMemory_def)
  show ?thesis
    using g
    by (simp add: fallbackInMemory_def processTurn_sessions split_beta list_all_update
          turnSession_isFromDb)
qed

lemma initialize_fallback: "fallbackInMemory (fst (initializeCosmosDB e w)) = fallbackInMemory w"
  by (simp add: fallbackInMemory_def initialize_keeps)

lemma step_fallback: "fallbackInMemory w \<Longrightarrow> fallbackInMemory (run w [(e, req)])"
proof (cases "processedSession e w req")
  case None
  assume "fallbackInMemory w"
  then show ?thesis using step_none[OF None] by (simp add: initialize_fallback)
next
  case (Some a)
  assume f: "fallbackInMemory w"
  obtain c s where a: "a = (c, s)" by (cases a)
  have "processedSession e w req = Some (c, s)" using Some a by simp
  from step_some[OF this] obtain fd :: formData and speech where
    "run w [(e, req)] = fst (processTurn e (fst (initializeCosmosDB e w)) speech c (From fd))"
    by blast
  then show ?thesis using f processTurn_fallback[of "fst (initializeCosmosDB e w)"]
    by (simp add: initialize_fallback)
qed

lemma memory_trace:
  "fallbackInMemory w \<Longrightarrow> everyStep (turnFromMemory call) w steps \<Longrightarrow>
   monotoneTrace ((case map_of (conversationSessions w) call of
                     None \<Rightarrow> [] | Some s \<Rightarrow> [leadInfo s]) @ sessionTrace w steps call)"
proof (induction steps arbitrary: w)
  case Nil
  then show ?case by (simp split: option.splits)
next
  case (Cons a steps)
  obtain e req where a: "a = (e, req)" by (cases a)
  define w1 where "w1 = fst (initializeCosmosDB e w)"
  define w' where "w' = run w [(e, req)]"
  have f': "fallbackInMemory w'" using Cons.prems(1) step_fallback by (simp add: w'_def)
  have e': "everyStep (turnFromMemory call) w' steps" using Cons.prems(2) a by (simp add: w'_def)
  have m: "turnFromMemory call e w req" using Cons.prems(2) a by simp
  note IH = Cons.IH[OF f' e']
  have cs1: "conversationSessions w1 = conversationSessions w"
    by (simp add: w1_def initialize_keeps)
  show ?case
  proof (cases "processedSession e w req")
    case None
    have "conversationSessions w' = conversationSessions w"
      using step_none[OF None] by (simp add: w'_def initialize_keeps)
    then show ?thesis using IH None a by (simp add: w'_def)
  next
    case (Some b)
    obtain c s where b: "b = (c, s)" by (cases b)
    have ps: "processedSession e w req = Some (c, s)" using Some b by simp
    from step_some[OF ps] obtain fd speech where st: "req_body req = Some fd" "c = CallSid fd"
        "s = turnSession e (snd (getOrCreateSession e w1 c (From fd))) speech"
        "w' = fst (processTurn e w1 speech c (From fd))"
      unfolding w1_def w'_def by blast
    show ?thesis
    proof (cases "c = call")
      case False
      have "map_of (conversationSessions w') call = map_of (conversationSessions w) call"
        using turn_map_other[of call c e w1 speech "From fd"] False st(4) cs1 by simp
      then show ?thesis using IH Some b a False by (simp add: w'_def)
    next
      case True
      have "servedFromMemory e w" using m st(1,2) True by (simp add: turnFromMemory_def)
      then have sm: "\<not> isDbConnected w1 \<or> \<not> queryCallOk e \<or> \<not> queryHistoryOk e"
        by (simp add: servedFromMemory_def w1_def)
      have s0: "snd (getOrCreateSession e w1 c (From fd)) =
           (case map_of (conversationSessions w) c of Some s \<Rightarrow> s | None \<Rightarrow> newMemorySession c (From fd))"
        using memory_session[OF sm, of c "From fd"] cs1 by simp
      have nd: "\<not> isFromDb (snd (getOrCreateSession e w1 c (From fd)))"
        using s0 fallback_entry[OF Cons.prems(1), of c]
        by (auto simp: newMemorySession_def split: option.splits)
      have now: "map_of (conversationSessions w') call = Some s"
        using turn_map_same[OF nd, of speech] st(3,4) True by simp
      have tr: "sessionTrace w (a # steps) call = leadInfo s # sessionTrace w' steps call"
        using Some b a True by (simp add: w'_def)
      have ih: "monotoneTrace (leadInfo s # sessionTrace w' steps call)"
        using IH now by simp
      show ?thesis
      proof (cases "map_of (conversationSessions w) call")
        case None
        then show ?thesis using tr ih by simp
      next
        case (Some s1)
        have "leadMonotone (leadInfo s1) (leadInfo s)"
          using s0 Some True st(3) by (simp add: turnSession_leadInfo merge_monotone)
        then show ?thesis using tr ih Some by simp
      qed
    qed
  qed
qed

lemma updateLead_stored:
  "isDbConnected w \<Longrightarrow> upsertOk e \<Longrightarrow>
   map_option doc_leadInfo (map_of (leadsContainer (fst (updateLead e w p li c))) p) = Some li"
  by (simp add: updateLead_def Let_def update_conv')

lemma updateLead_other:
  "k \<noteq> p \<Longrightarrow> map_of (leadsContainer (fst (updateLead e w p li c))) k = map_of (leadsContainer w) k"
  by (simp add: updateLead_def Let_def update_conv')

lemma updateLead_connected: "isDbConnected (fst (updateLead e w p li c)) = isDbConnected w"
  by (simp add: updateLead_def Let_def)

lemma getOrCreateSession_connected:
  "isDbConnected (fst (getOrCreateSession e w c p)) = isDbConnected w"
  by (simp add: getOrCreateSession_def split: option.splits)

lemma processTurn_leads_at:
  "leadsContainer (fst (processTurn e w1 speech c p)) =
     leadsContainer (fst (updateLead e
        (fst (saveMessage (createAssistantOk e) e
               (fst (saveMessage (createUserOk e) e (fst (getOrCreateSession e w1 c p)) c p
                      ''user'' speech))
               c p ''assistant''
               (getAIResponse e (messages (snd (getOrCreateSession e w1 c p))
                                  @ [\<lparr>role = ''user'', content = speech\<rparr>]))))
        p (leadInfo (turnSession e (snd (getOrCreateSession e w1 c p)) speech)) c))"
  by (simp add: processTurn_def Let_def split_beta turnSession_def)

lemma turn_lead_same:
  assumes "isDbConnected w1" "upsertOk e"
  shows "map_option doc_leadInfo (map_of (leadsContainer (fst (processTurn e w1 speech c p))) p) =
           Some (leadInfo (turnSession e (snd (getOrCreateSession e w1 c p)) speech))"
  unfolding processTurn_leads_at
  by (rule updateLead_stored) (simp_all add: saveMessage_keeps getOrCreateSession_connected assms)

lemma turn_lead_other:
  "k \<noteq> p \<Longrightarrow>
   map_of (leadsContainer (fst (processTurn e w1 speech c p))) k = map_of (leadsContainer w1) k"
  unfolding processTurn_leads_at
  by (simp add: updateLead_other saveMessage_keeps getOrCreateSession_leads)

lemma db_trace:
  "everyStep (turnFromDb phone) w steps \<Longrightarrow> list_all (callFrom call phone) (map snd steps) \<Longrightarrow>
   monotoneTrace ((case map_of (leadsContainer w) phone of
                     None \<Rightarrow> [] | Some d \<Rightarrow> [doc_leadInfo d]) @ sessionTrace w steps call)"
proof (induction steps arbitrary: w)
  case Nil
  then show ?case by (simp split: option.splits)
next
  case (Cons a steps)
  obtain e req where a: "a = (e, req)" by (cases a)
  define w1 where "w1 = fst (initializeCosmosDB e w)"
  define w' where "w' = run w [(e, req)]"
  have e': "everyStep (turnFromDb phone) w' steps" using Cons.prems(1) a by (simp add: w'_def)
  have m: "turnFromDb phone e w req" using Cons.prems(1) a by simp
  have cf: "callFrom call phone req" using Cons.prems(2) a by simp
  have l': "list_all (callFrom call phone) (map snd steps)" using Cons.prems(2) by simp
  note IH = Cons.IH[OF e' l']
  have ld1: "leadsContainer w1 = leadsContainer w"
    by (simp add: w1_def initialize_keeps)
  show ?case
  proof (cases "processedSession e w req")
    case None
    have "leadsContainer w' = leadsContainer w"
      using step_none[OF None] by (simp add: w'_def initialize_keeps)
    then show ?thesis using IH None a by (simp add: w'_def)
  next
    case (Some b)
    obtain c s where b: "b = (c, s)" by (cases b)
    have ps: "processedSession e w req = Some (c, s)" using Some b by simp
    from step_some[OF ps] obtain fd speech where st: "req_body req = Some fd" "c = CallSid fd"
        "s = turnSession e (snd (getOrCreateSession e w1 c (From fd))) speech"
        "w' = fst (processTurn e w1 speech c (From fd))"
      unfolding w1_def w'_def by blast
    show ?thesis
    proof (cases "From fd = phone")
      case False
      have nc: "c \<noteq> call" using cf st(1,2) False by (auto simp: callFrom_def)
      have "map_of (leadsContainer w') phone = map_of (leadsContainer w) phone"
        using turn_lead_other[of phone "From fd" e w1 speech c] False st(4) ld1 by auto
      then show ?thesis using IH Some b a nc by (simp add: w'_def)
    next
      case True
      have "servedFromDb e w" using m st(1) True by (simp add: turnFromDb_def)
      then have sd: "isDbConnected w1" "queryCallOk e" "queryHistoryOk e" "readLeadOk e" "upsertOk e"
        by (simp_all add: servedFromDb_def w1_def)
      have s0: "leadInfo (snd (getOrCreateSession e w1 c (From fd))) =
             (case map_of (leadsContainer w) phone of
                Some d \<Rightarrow> doc_leadInfo d | None \<Rightarrow> defaultLeadInfo)"
        using db_session[OF sd(1,2,3,4), of c "From fd"] ld1 True by simp
      have "map_option doc_leadInfo (map_of (leadsContainer w') phone) = Some (leadInfo s)"
        using turn_lead_same[OF sd(1) sd(5), of speech c "From fd"] st(3,4) True by simp
      then obtain d' where now: "map_of (leadsContainer w') phone = Some d'"
          "doc_leadInfo d' = leadInfo s"
        by auto
      have ih: "monotoneTrace (leadInfo s # sessionTrace w' steps call)"
        using IH now by simp
      have tr: "sessionTrace w (a # steps) call =
                  (if c = call then leadInfo s # sessionTrace w' steps call
                   else sessionTrace w' steps call)"
        using Some b a by (simp add: w'_def)
      show ?thesis
      proof (cases "map_of (leadsContainer w) phone")
        case None
        then show ?thesis using tr ih monotoneTrace_tail[OF ih] by simp
      next
        case (Some d)
        have lm: "leadMonotone (doc_leadInfo d) (leadInfo s)"
          using s0 Some st(3) by (simp add: turnSession_leadInfo merge_monotone)
        then show ?thesis using tr ih Some monotoneTrace_head[OF lm ih] by simp
      qed
    qed
  qed
qed

lemma monotoneTrace_suffix: "monotoneTrace (xs @ t) \<Longrightarrow> monotoneTrace t"
  by (induction xs) (auto dest: monotoneTrace_tail)

text \<open>The sessions of two turns of the call \<open>CA1\<close>, one after the other.\<close>

lemma high_confidence: "\<not> numLess (Finite (9 / 10)) literal_0_3"
  by (simp add: literal_0_3_def)

lemma trace_turn:
  assumes "trim t \<noteq> []" "\<not> numLess conf literal_0_3"
  shows "sessionTrace w ((e, webhook (Str t) conf) # rest) ''CA1'' =
           leadInfo (turnSession e
              (snd (getOrCreateSession e (fst (initializeCosmosDB e w)) ''CA1'' ''+15550100'')) t)
           # sessionTrace (fst (processTurn e (fst (initializeCosmosDB e w)) t ''CA1'' ''+15550100''))
               rest ''CA1''"
proof -
  have p: "processedSession e w (webhook (Str t) conf) =
      Some (''CA1'', turnSession e
              (snd (getOrCreateSession e (fst (initializeCosmosDB e w)) ''CA1'' ''+15550100'')) t)"
    using assms by (simp add: processedSession_def webhook_def)
  have "voiceStream e w (webhook (Str t) conf) =
          Inr (processTurn e (fst (initializeCosmosDB e w)) t ''CA1'' ''+15550100'')"
    using voiceStream_filter[of "webhook (Str t) conf"
        "\<lparr>SpeechResult = Str t, CallSid = ''CA1'', From = ''+15550100'', Confidence = conf\<rparr>"
        t e w] assms
    by (simp add: webhook_fields)
  then have r: "run w [(e, webhook (Str t) conf)] =
      fst (processTurn e (fst (initializeCosmosDB e w)) t ''CA1'' ''+15550100'')"
    by (simp add: split_beta)
  show ?thesis
    unfolding sessionTrace.simps p r by simp
qed

lemma trim_emergency: "trim ''no heat, my furnace is broken'' \<noteq> []"
  by code_simp

lemma trim_thanks: "trim ''thank you'' \<noteq> []"
  by code_simp

lemma two_turns:
  "sessionTrace w [(e1, emergencyTurn), (e2, thanksTurn)] ''CA1'' =
     [rescore (mergeLeadInfo (analyzeMessage ''no heat, my furnace is broken'')
         (leadInfo (snd (getOrCreateSession e1 (fst (initializeCosmosDB e1 w)) ''CA1'' ''+15550100'')))),
      rescore (mergeLeadInfo (analyzeMessage ''thank you'')
         (leadInfo (snd (getOrCreateSession e2
            (fst (initializeCosmosDB e2
               (fst (processTurn e1 (fst (initializeCosmosDB e1 w))
                      ''no heat, my furnace is broken'' ''CA1'' ''+15550100''))))
            ''CA1'' ''+15550100''))))]"
  unfolding emergencyTurn_def thanksTurn_def
  apply (subst trace_turn[OF trim_emergency high_confidence])
  apply (subst trace_turn[OF trim_thanks high_confidence])
  apply (simp only: sessionTrace.simps(1) turnSession_leadInfo)
  done

lemma emergency_flags:
  "hasEmergency (rescore (mergeLeadInfo (analyzeMessage ''no heat, my furnace is broken'') defaultLeadInfo))"
  "serviceType (rescore (mergeLeadInfo (analyzeMessage ''no heat, my furnace is broken'') defaultLeadInfo))
     = Some ''heating''"
  by code_simp+

lemma thanks_flags:
  "hasEmergency (rescore (mergeLeadInfo (analyzeMessage ''thank you'') li)) = hasEmergency li"
  "serviceType (rescore (mergeLeadInfo (analyzeMessage ''thank you'') li)) = serviceType li"
proof -
  have a: "\<not> hasEmergency (analyzeMessage ''thank you'')" by code_simp
  have b: "serviceType (analyzeMessage ''thank you'') = None" by code_simp
  show "hasEmergency (rescore (mergeLeadInfo (analyzeMessage ''thank you'') li)) = hasEmergency li"
    using a b by (simp add: rescore_def mergeLeadInfo_def Let_def)
  show "serviceType (rescore (mergeLeadInfo (analyzeMessage ''thank you'') li)) = serviceType li"
    using a b by (simp add: rescore_def mergeLeadInfo_def Let_def)
qed

lemma default_flags: "\<not> hasEmergency defaultLeadInfo" "serviceType defaultLeadInfo = None"
  by (simp_all add: defaultLeadInfo_def)

lemma new_session:
  "\<not> isDbConnected w1 \<or> \<not> queryCallOk e \<or> \<not> queryHistoryOk e \<Longrightarrow>
   map_of (conversationSessions w1) c = None \<Longrightarrow>
   leadInfo (snd (getOrCreateSession e w1 c p)) = defaultLeadInfo
   \<and> \<not> isFromDb (snd (getOrCreateSession e w1 c p))"
  by (simp add: memory_session newMemorySession_def)

lemma processTurn_unwritten:
  "\<not> isDbConnected w1 \<or> \<not> upsertOk e \<Longrightarrow>
   leadsContainer (fst (processTurn e w1 speech c p)) = leadsContainer w1"
  unfolding processTurn_leads_at
  by (auto simp: updateLead_leads_eq saveMessage_keeps getOrCreateSession_connected
        getOrCreateSession_leads)

lemma processTurn_connected:
  "isDbConnected (fst (processTurn e w1 speech c p)) = isDbConnected w1"
  by (simp add: processTurn_def Let_def split_beta updateLead_connected saveMessage_keeps
        getOrCreateSession_connected)

lemma connection_string:
  "includesStr ''AccountEndpoint=https://db.example/;AccountKey=k;'' ''AccountEndpoint=''"
  "includesStr ''AccountEndpoint=https://db.example/;AccountKey=k;'' ''AccountKey=''"
  by code_simp+

lemma envDb_fields:
  "COSMOS_CONN envDb = Some ''AccountEndpoint=https://db.example/;AccountKey=k;''"
  "connectDb envDb = Returns ()" "queryCallOk envDb" "queryHistoryOk envDb" "readLeadOk envDb"
  "upsertOk envDb"
  by (simp_all add: envDb_def)

lemma envTimeout_fields:
  "COSMOS_CONN envTimeout = Some ''AccountEndpoint=https://db.example/;AccountKey=k;''"
  "connectDb envTimeout = Throws ''Connection timeout''"
  by (simp_all add: envTimeout_def envDb_def)

lemma envUpsertFails_fields:
  "COSMOS_CONN envUpsertFails = Some ''AccountEndpoint=https://db.example/;AccountKey=k;''"
  "connectDb envUpsertFails = Returns ()" "queryCallOk envUpsertFails"
  "queryHistoryOk envUpsertFails" "readLeadOk envUpsertFails" "\<not> upsertOk envUpsertFails"
  by (simp_all add: envUpsertFails_def envDb_def)

lemma connects:
  "COSMOS_CONN e = Some ''AccountEndpoint=https://db.example/;AccountKey=k;'' \<Longrightarrow>
   connectDb e = Returns () \<Longrightarrow> isDbConnected (fst (initializeCosmosDB e w))"
  by (simp add: initializeCosmosDB_def connection_string)

lemma times_out: "fst (initializeCosmosDB envTimeout initialWorld) = initialWorld"
  by (simp add: initializeCosmosDB_def connection_string envTimeout_fields initialWorld_def)

lemma initial_empty:
  "map_of (conversationSessions initialWorld) c = None" "leadsContainer initialWorld = []"
  "\<not> isDbConnected initialWorld"
  by (simp_all add: initialWorld_def)

lemma served_envDb: "servedFromDb envDb w"
  by (simp add: servedFromDb_def envDb_fields connects)

lemma served_envMemory: "servedFromMemory envMemory w"
  by (simp add: servedFromMemory_def envMemory_def)

lemma db_lead:
  assumes "isDbConnected w1" "queryCallOk e" "queryHistoryOk e" "readLeadOk e"
  shows "leadInfo (snd (getOrCreateSession e w1 c p)) =
           (case map_of (leadsContainer w1) p of Some d \<Rightarrow> doc_leadInfo d | None \<Rightarrow> defaultLeadInfo)"
  using db_session[OF assms] by simp

lemma memoryCall_trace:
  "sessionTrace initialWorld memoryCall ''CA1'' =
     [rescore (mergeLeadInfo (analyzeMessage ''no heat, my furnace is broken'') defaultLeadInfo),
      rescore (mergeLeadInfo (analyzeMessage ''thank you'')
        (rescore (mergeLeadInfo (analyzeMessage ''no heat, my furnace is broken'') defaultLeadInfo)))]"
proof -
  have q: "\<not> isDbConnected w \<or> \<not> queryCallOk envMemory \<or> \<not> queryHistoryOk envMemory" for w
    by (simp add: envMemory_def)
  have n: "leadInfo (snd (getOrCreateSession envMemory initialWorld ''CA1'' ''+15550100'')) = defaultLeadInfo"
      "\<not> isFromDb (snd (getOrCreateSession envMemory initialWorld ''CA1'' ''+15550100''))"
    using new_session[OF q initial_empty(1)] by simp_all
  have m: "map_of (conversationSessions (fst (processTurn envMemory initialWorld
              ''no heat, my furnace is broken'' ''CA1'' ''+15550100''))) ''CA1'' =
           Some (turnSession envMemory (snd (getOrCreateSession envMemory initialWorld ''CA1'' ''+15550100''))
              ''no heat, my furnace is broken'')"
    using turn_map_same[OF n(2)] .
  have s: "leadInfo (snd (getOrCreateSession envMemory
             (fst (processTurn envMemory initialWorld ''no heat, my furnace is broken'' ''CA1'' ''+15550100''))
             ''CA1'' ''+15550100'')) =
       rescore (mergeLeadInfo (analyzeMessage ''no heat, my furnace is broken'') defaultLeadInfo)"
    by (simp add: memory_session[OF q] m turnSession_leadInfo initial_empty newMemorySession_def)
  show ?thesis
    unfolding memoryCall_def two_turns by (simp only: initialize_memory n(1) s)
qed

lemma dbCall_trace:
  "sessionTrace initialWorld dbCall ''CA1'' =
     [rescore (mergeLeadInfo (analyzeMessage ''no heat, my furnace is broken'') defaultLeadInfo),
      rescore (mergeLeadInfo (analyzeMessage ''thank you'')
        (rescore (mergeLeadInfo (analyzeMessage ''no heat, my furnace is broken'') defaultLeadInfo)))]"
proof -
  define w1 where "w1 = fst (initializeCosmosDB envDb initialWorld)"
  define w' where "w' = fst (processTurn envDb w1 ''no heat, my furnace is broken'' ''CA1'' ''+15550100'')"
  define w2 where "w2 = fst (initializeCosmosDB envDb w')"
  have c1: "isDbConnected w1" unfolding w1_def by (rule connects) (rule envDb_fields)+
  have c2: "isDbConnected w2" unfolding w2_def by (rule connects) (rule envDb_fields)+
  have l1: "map_of (leadsContainer w1) ''+15550100'' = None"
    by (simp add: w1_def initialize_keeps initial_empty)
  have n: "leadInfo (snd (getOrCreateSession envDb w1 ''CA1'' ''+15550100'')) = defaultLeadInfo"
    using db_lead[OF c1 envDb_fields(3,4,5), of "''CA1''" "''+15550100''"] l1 by simp
  have "map_option doc_leadInfo (map_of (leadsContainer w') ''+15550100'') =
          Some (leadInfo (turnSession envDb (snd (getOrCreateSession envDb w1 ''CA1'' ''+15550100''))
                   ''no heat, my furnace is broken''))"
    unfolding w'_def by (rule turn_lead_same[OF c1 envDb_fields(6)])
  then have "map_option doc_leadInfo (map_of (leadsContainer w2) ''+15550100'') =
          Some (rescore (mergeLeadInfo (analyzeMessage ''no heat, my furnace is broken'') defaultLeadInfo))"
    by (simp add: w2_def initialize_keeps turnSession_leadInfo n)
  then have s: "leadInfo (snd (getOrCreateSession envDb w2 ''CA1'' ''+15550100'')) =
       rescore (mergeLeadInfo (analyzeMessage ''no heat, my furnace is broken'') defaultLeadInfo)"
    using db_lead[OF c2 envDb_fields(3,4,5), of "''CA1''" "''+15550100''"] by auto
  show ?thesis
    unfolding dbCall_def two_turns using n s unfolding w1_def w'_def w2_def by (simp only:)
qed

lemma reconnectedCall_trace:
  "sessionTrace initialWorld reconnectedCall ''CA1'' =
     [rescore (mergeLeadInfo (analyzeMessage ''no heat, my furnace is broken'') defaultLeadInfo),
      rescore (mergeLeadInfo (analyzeMessage ''thank you'') defaultLeadInfo)]"
proof -
  define w' where "w' = fst (processTurn envTimeout initialWorld ''no heat, my furnace is broken''
                               ''CA1'' ''+15550100'')"
  define w2 where "w2 = fst (initializeCosmosDB envDb w')"
  have q: "\<not> isDbConnected initialWorld \<or> \<not> queryCallOk envTimeout \<or> \<not> queryHistoryOk envTimeout"
    by (simp add: initial_empty)
  have n: "leadInfo (snd (getOrCreateSession envTimeout initialWorld ''CA1'' ''+15550100'')) = defaultLeadInfo"
    using new_session[OF q initial_empty(1)] by simp
  have c2: "isDbConnected w2" unfolding w2_def by (rule connects) (rule envDb_fields)+
  have "leadsContainer w' = leadsContainer initialWorld"
    unfolding w'_def by (rule processTurn_unwritten) (simp add: initial_empty)
  then have l2: "map_of (leadsContainer w2) ''+15550100'' = None"
    by (simp add: w2_def initialize_keeps initial_empty)
  have s: "leadInfo (snd (getOrCreateSession envDb w2 ''CA1'' ''+15550100'')) = defaultLeadInfo"
    using db_lead[OF c2 envDb_fields(3,4,5), of "''CA1''" "''+15550100''"] l2 by simp
  show ?thesis
    unfolding reconnectedCall_def two_turns times_out using n s unfolding w'_def w2_def
    by (simp only:)
qed

lemma upsertFailedCall_trace:
  "sessionTrace initialWorld upsertFailedCall ''CA1'' =
     [rescore (mergeLeadInfo (analyzeMessage ''no heat, my furnace is broken'') defaultLeadInfo),
      rescore (mergeLeadInfo (analyzeMessage ''thank you'') defaultLeadInfo)]"
proof -
  define w1 where "w1 = fst (initializeCosmosDB envUpsertFails initialWorld)"
  define w' where "w' = fst (processTurn envUpsertFails w1 ''no heat, my furnace is broken''
                               ''CA1'' ''+15550100'')"
  define w2 where "w2 = fst (initializeCosmosDB envDb w')"
  have c1: "isDbConnected w1" unfolding w1_def by (rule connects) (rule envUpsertFails_fields)+
  have c2: "isDbConnected w2" unfolding w2_def by (rule connects) (rule envDb_fields)+
  have l1: "map_of (leadsContainer w1) ''+15550100'' = None"
    by (simp add: w1_def initialize_keeps initial_empty)
  have n: "leadInfo (snd (getOrCreateSession envUpsertFails w1 ''CA1'' ''+15550100'')) = defaultLeadInfo"
    using db_lead[OF c1 envUpsertFails_fields(3,4,5), of "''CA1''" "''+15550100''"] l1 by simp
  have "leadsContainer w' = leadsContainer w1"
    unfolding w'_def by (rule processTurn_unwritten) (simp add: envUpsertFails_fields)
  then have l2: "map_of (leadsContainer w2) ''+15550100'' = None"
    using l1 by (simp add: w2_def initialize_keeps)
  have s: "leadInfo (snd (getOrCreateSession envDb w2 ''CA1'' ''+15550100'')) = defaultLeadInfo"
    using db_lead[OF c2 envDb_fields(3,4,5), of "''CA1''" "''+15550100''"] l2 by simp
  show ?thesis
    unfolding upsertFailedCall_def two_turns using n s unfolding w1_def w'_def w2_def
    by (simp only:)
qed

text \<open>
  C4, as stated, fails. In the call \<open>CA1\<close> the first turn reports an emergency about the
  heating, and the session of that turn has the flag and the service type set; the session of
  the second turn has the flag false and the service type \<^verbatim>\<open>null\<close>. This happens when
  the connection to the database times out on the first turn, which is served from the
  fallback \<^verbatim>\<open>Map\<close>, and is made on the second, whose session is built from the lead
  record; and when the upsert of the lead fails on the first turn.
\<close>

theorem C4_counterexample:
  "map hasEmergency (sessionTrace initialWorld reconnectedCall ''CA1'') = [True, False]
   \<and> map serviceType (sessionTrace initialWorld reconnectedCall ''CA1'') = [Some ''heating'', None]
   \<and> \<not> monotoneTrace (sessionTrace initialWorld reconnectedCall ''CA1'')
   \<and> map hasEmergency (sessionTrace initialWorld upsertFailedCall ''CA1'') = [True, False]
   \<and> map serviceType (sessionTrace initialWorld upsertFailedCall ''CA1'') = [Some ''heating'', None]
   \<and> \<not> monotoneTrace (sessionTrace initialWorld upsertFailedCall ''CA1'')"
  by (simp add: reconnectedCall_trace upsertFailedCall_trace emergency_flags thanks_flags
        default_flags leadMonotone_def)

text \<open>
  C4, amended. The merge of the handler is monotone: applied turn after turn to any
  leadInfo it never clears hasEmergency and never resets serviceType to \<^verbatim>\<open>null\<close>, and
  the session that the fallback store holds for a call keeps both across any run of webhooks.
  The sessions that the handler uses for the processed turns of a call keep both from each
  turn to the next when every webhook of the call is served from the fallback store, and
  when every webhook from the phone number of the call is served from the database with the
  lead record read and the upsert of the lead stored.
\<close>

theorem C4_session_monotone_amended:
  "(hasEmergency li \<longrightarrow> hasEmergency (mergeTurns li utterances))
   \<and> (serviceType li \<noteq> None \<longrightarrow> serviceType (mergeTurns li utterances) \<noteq> None)
   \<and> (map_of (conversationSessions w) call = Some s \<longrightarrow>
        (\<exists>s'. map_of (conversationSessions (run w steps)) call = Some s'
              \<and> (hasEmergency (leadInfo s) \<longrightarrow> hasEmergency (leadInfo s'))
              \<and> (serviceType (leadInfo s) \<noteq> None \<longrightarrow> serviceType (leadInfo s') \<noteq> None)))
   \<and> (fallbackInMemory w \<and> everyStep (turnFromMemory call) w steps \<longrightarrow>
        monotoneTrace (sessionTrace w steps call))
   \<and> (everyStep (turnFromDb phone) w steps \<and> list_all (callFrom call phone) (map snd steps) \<longrightarrow>
        monotoneTrace (sessionTrace w steps call))"
proof -
  have a: "(hasEmergency li \<longrightarrow> hasEmergency (mergeTurns li utterances))
   \<and> (serviceType li \<noteq> None \<longrightarrow> serviceType (mergeTurns li utterances) \<noteq> None)
   \<and> (map_of (conversationSessions w) call = Some s \<longrightarrow>
        (\<exists>s'. map_of (conversationSessions (run w steps)) call = Some s'
              \<and> (hasEmergency (leadInfo s) \<longrightarrow> hasEmergency (leadInfo s'))
              \<and> (serviceType (leadInfo s) \<noteq> None \<longrightarrow> serviceType (leadInfo s') \<noteq> None)))"
    using mergeTurns_monotone[of li utterances] run_monotone[of w call s steps]
    unfolding leadMonotone_def by blast
  have b: "fallbackInMemory w \<and> everyStep (turnFromMemory call) w steps \<longrightarrow>
        monotoneTrace (sessionTrace w steps call)"
    using memory_trace[of w call steps] monotoneTrace_suffix by blast
  have c: "everyStep (turnFromDb phone) w steps \<and> list_all (callFrom call phone) (map snd steps) \<longrightarrow>
        monotoneTrace (sessionTrace w steps call)"
    using db_trace[of phone w steps call] monotoneTrace_suffix by blast
  show ?thesis using a b c by blast
qed

theorem C4_session_monotone_witness:
  "hasEmergency emergencyLead \<and> serviceType emergencyLead \<noteq> None
   \<and> hasEmergency (mergeTurns emergencyLead [''thank you'', ''my name is Ann''])
   \<and> serviceType (mergeTurns emergencyLead [''thank you'', ''my name is Ann'']) \<noteq> None
   \<and> fallbackInMemory initialWorld \<and> everyStep (turnFromMemory ''CA1'') initialWorld memoryCall
   \<and> monotoneTrace (sessionTrace initialWorld memoryCall ''CA1'')
   \<and> map hasEmergency (sessionTrace initialWorld memoryCall ''CA1'') = [True, True]
   \<and> everyStep (turnFromDb ''+15550100'') initialWorld dbCall
   \<and> list_all (callFrom ''CA1'' ''+15550100'') (map snd dbCall)
   \<and> monotoneTrace (sessionTrace initialWorld dbCall ''CA1'')
   \<and> map hasEmergency (sessionTrace initialWorld dbCall ''CA1'') = [True, True]
   \<and> map serviceType (sessionTrace initialWorld dbCall ''CA1'') = [Some ''heating'', Some ''heating'']"
proof -
  have h: "hasEmergency emergencyLead \<and> serviceType emergencyLead \<noteq> None"
    by (simp add: emergencyLead_def)
  have f: "fallbackInMemory initialWorld"
    by (simp add: fallbackInMemory_def initialWorld_def)
  have m: "everyStep (turnFromMemory ''CA1'') initialWorld memoryCall"
    by (simp add: memoryCall_def turnFromMemory_def served_envMemory split: option.splits)
  have d: "everyStep (turnFromDb ''+15550100'') initialWorld dbCall"
    by (simp add: dbCall_def turnFromDb_def served_envDb split: option.splits)
  have l: "list_all (callFrom ''CA1'' ''+15550100'') (map snd dbCall)"
    by (simp add: dbCall_def callFrom_def emergencyTurn_def thanksTurn_def webhook_def)
  have v1: "map hasEmergency (sessionTrace initialWorld memoryCall ''CA1'') = [True, True]"
    by (simp add: memoryCall_trace emergency_flags thanks_flags)
  have v2: "map hasEmergency (sessionTrace initialWorld dbCall ''CA1'') = [True, True]"
    by (simp add: dbCall_trace emergency_flags thanks_flags)
  have v3: "map serviceType (sessionTrace initialWorld dbCall ''CA1'') = [Some ''heating'', Some ''heating'']"
    by (simp add: dbCall_trace emergency_flags thanks_flags)
  note A = C4_session_monotone_amended[where li=emergencyLead
      and utterances="[''thank you'', ''my name is Ann'']" and w=initialWorld and call="''CA1''"
      and s=emergencySession and steps=memoryCall and phone="''+15550100''"]
  note B = C4_session_monotone_amended[where li=emergencyLead
      and utterances="[''thank you'', ''my name is Ann'']" and w=initialWorld and call="''CA1''"
      and s=emergencySession and steps=dbCall and phone="''+15550100''"]
  have 1: "hasEmergency (mergeTurns emergencyLead [''thank you'', ''my name is Ann''])
           \<and> serviceType (mergeTurns emergencyLead [''thank you'', ''my name is Ann'']) \<noteq> None"
    using A h by blast
  have 2: "monotoneTrace (sessionTrace initialWorld memoryCall ''CA1'')"
    using A f m by blast
  have 3: "monotoneTrace (sessionTrace initialWorld dbCall ''CA1'')"
    using B d l by blast
  show ?thesis using h f m d l v1 v2 v3 1 2 3 by blast
qed

subsection \<open>Responses are markup\<close>












lemma includesStr_startsWith: "startsWith s k \<Longrightarrow> includesStr s k"
  by (cases s) (auto elim: startsWith.elims)









lemma ready_differs:
  "readyResponse \<noteq> clarificationResponse" "readyResponse \<noteq> noSpeechResponse"
  "readyResponse \<noteq> errorResponse" "readyResponse \<noteq> turnResponse a f"
  by (simp_all add: readyResponse_def clarificationResponse_def noSpeechResponse_def
        errorResponse_def turnResponse_def)




















subsection \<open>Business resolution\<close>

lemma findBusiness_default:
  "lookupFailsOrEmpty initialized fs p \<Longrightarrow>
   findBusinessByPhone initialized fs p = Returns getDefaultBusinessConfig"
  by (auto simp: lookupFailsOrEmpty_def findBusinessByPhone_def
        split: if_splits outcome.splits list.splits)

lemma findBusiness_total: "\<exists>b. findBusinessByPhone initialized fs p = Returns b"
  by (auto simp: findBusinessByPhone_def split: if_splits outcome.splits list.splits)

lemma getBusinessContext_total: "\<exists>c. getBusinessContext initialized fs bid p = Returns c"
  by (auto simp: getBusinessContext_def split: outcome.splits)

lemma getBusinessContext_default:
  "lookupFailsOrEmpty initialized fs p \<Longrightarrow>
   getBusinessContext initialized fs None p =
     Returns (contextOf getDefaultBusinessConfig getDefaultAIConfig)"
  by (auto simp: getBusinessContext_def resolveBusiness_def findBusiness_default
        getBusinessAIConfig_def getDefaultBusinessConfig_def)

lemma default_context_fields:
  "ctx_companyName (contextOf getDefaultBusinessConfig getDefaultAIConfig) = ''Blue Caller HVAC''
   \<and> ctx_industry (contextOf getDefaultBusinessConfig getDefaultAIConfig) = ''hvac''
   \<and> ctx_services (contextOf getDefaultBusinessConfig getDefaultAIConfig)
       = [''heating repair'', ''cooling repair'', ''maintenance'', ''installation'']
   \<and> ctx_isDefault (contextOf getDefaultBusinessConfig getDefaultAIConfig)"
  by (simp add: contextOf_def getDefaultBusinessConfig_def orElse_def Let_def)

lemma default_config_fields:
  "profile (data getDefaultBusinessConfig)
     = Some \<lparr>companyName = Some ''Blue Caller HVAC'', industry = Some ''hvac'', businessType = Some ''hvac''\<rparr>
   \<and> servicesList (data getDefaultBusinessConfig)
     = Some [''heating repair'', ''cooling repair'', ''maintenance'', ''installation'']"
  by (simp add: getDefaultBusinessConfig_def)

lemma missing_credentials:
  "adminApps fe = 0 \<Longrightarrow>
   \<not> truthy (FB_PROJECT_ID fe) \<or> \<not> truthy (FB_CLIENT_EMAIL fe) \<or> \<not> truthy (FB_PRIVATE_KEY fe)
     \<or> initializeApp fe = Throws m \<Longrightarrow>
   \<not> initializeFirebase fe"
  by (auto simp: initializeFirebase_def)

text \<open>
  C6. For every dialed phone number, business resolution is total and never raises to the
  caller: findBusinessByPhone and getBusinessContext always return. When no registered
  business matches the number, or when the lookup fails (the directory is not initialised
  because credentials are missing or malformed, or a query throws), findBusinessByPhone
  returns the fixed default configuration and getBusinessContext returns the default tenant
  with the company name 'Blue Caller HVAC', the industry 'hvac' and the fixed service list.
\<close>

theorem C6_resolution_total_with_default:
  "(\<exists>b. findBusinessByPhone initialized fs phone = Returns b)
   \<and> (\<exists>c. getBusinessContext initialized fs businessId' phone = Returns c)
   \<and> (lookupFailsOrEmpty initialized fs phone \<longrightarrow>
        findBusinessByPhone initialized fs phone = Returns getDefaultBusinessConfig
        \<and> (\<exists>c. getBusinessContext initialized fs None phone = Returns c
              \<and> ctx_companyName c = ''Blue Caller HVAC'' \<and> ctx_industry c = ''hvac''
              \<and> ctx_services c = [''heating repair'', ''cooling repair'', ''maintenance'', ''installation'']
              \<and> ctx_isDefault c))
   \<and> (adminApps fe = 0
        \<and> (\<not> truthy (FB_PROJECT_ID fe) \<or> \<not> truthy (FB_CLIENT_EMAIL fe) \<or> \<not> truthy (FB_PRIVATE_KEY fe)
            \<or> initializeApp fe = Throws m) \<longrightarrow>
        \<not> initializeFirebase fe \<and> lookupFailsOrEmpty (initializeFirebase fe) fs phone)
   \<and> profile (data getDefaultBusinessConfig)
        = Some \<lparr>companyName = Some ''Blue Caller HVAC'', industry = Some ''hvac'', businessType = Some ''hvac''\<rparr>
   \<and> servicesList (data getDefaultBusinessConfig)
        = Some [''heating repair'', ''cooling repair'', ''maintenance'', ''installation'']"
proof -
  have a: "lookupFailsOrEmpty initialized fs phone \<longrightarrow>
        findBusinessByPhone initialized fs phone = Returns getDefaultBusinessConfig
        \<and> (\<exists>c. getBusinessContext initialized fs None phone = Returns c
              \<and> ctx_companyName c = ''Blue Caller HVAC'' \<and> ctx_industry c = ''hvac''
              \<and> ctx_services c = [''heating repair'', ''cooling repair'', ''maintenance'', ''installation'']
              \<and> ctx_isDefault c)"
    using findBusiness_default[of initialized fs phone]
      getBusinessContext_default[of initialized fs phone] default_context_fields
    by auto
  have b: "adminApps fe = 0
        \<and> (\<not> truthy (FB_PROJECT_ID fe) \<or> \<not> truthy (FB_CLIENT_EMAIL fe) \<or> \<not> truthy (FB_PRIVATE_KEY fe)
            \<or> initializeApp fe = Throws m) \<longrightarrow>
        \<not> initializeFirebase fe \<and> lookupFailsOrEmpty (initializeFirebase fe) fs phone"
    using missing_credentials[of fe m] by (auto simp: lookupFailsOrEmpty_def)
  show ?thesis
    using a b findBusiness_total[of initialized fs phone]
      getBusinessContext_total[of initialized fs businessId' phone] default_config_fields
    by blast
qed

theorem C6_resolution_total_with_default_witness:
  "lookupFailsOrEmpty True unreachableDirectory ''+12792405162''
   \<and> findBusinessByPhone True unreachableDirectory ''+12792405162'' = Returns getDefaultBusinessConfig
   \<and> lookupFailsOrEmpty True emptyDirectory ''+12792405162''
   \<and> findBusinessByPhone True emptyDirectory ''+12792405162'' = Returns getDefaultBusinessConfig
   \<and> \<not> initializeFirebase noCredentials
   \<and> findBusinessByPhone (initializeFirebase noCredentials) emptyDirectory ''+12792405162''
       = Returns getDefaultBusinessConfig"
proof -
  have u: "lookupFailsOrEmpty True unreachableDirectory ''+12792405162''"
    by (simp add: lookupFailsOrEmpty_def unreachableDirectory_def)
  have e: "lookupFailsOrEmpty True emptyDirectory ''+12792405162''"
    by (simp add: lookupFailsOrEmpty_def emptyDirectory_def)
  have n: "adminApps noCredentials = 0 \<and> \<not> truthy (FB_PROJECT_ID noCredentials)"
    by (simp add: noCredentials_def)
  show ?thesis
    using u e n
      C6_resolution_total_with_default[where initialized=True and fs=unreachableDirectory
        and phone="''+12792405162''"]
      C6_resolution_total_with_default[where initialized=True and fs=emptyDirectory
        and phone="''+12792405162''"]
      C6_resolution_total_with_default[where initialized="initializeFirebase noCredentials"
        and fs=emptyDirectory and phone="''+12792405162''" and fe=noCredentials]
    by blast
qed

end
